theory Spec2Isabelle
  imports Complex_Main
begin

section \<open>Data model (01_DATABASE_SCHEMA.sql)\<close>

text \<open>
  Primary keys (UUID columns) are natural numbers.  A monetary amount is a rational: the
  value of a DECIMAL column, the value of a decimal literal of a request body, or the
  value of a JavaScript number (a double; see the section on JavaScript numbers).  The
  coercion that the database applies when a decimal is written into a DECIMAL(n, 2) column
  is not code of the repository; every operation that writes such a column takes it as the
  parameter \<open>q\<close>.
\<close>

type_synonym uuid = nat
type_synonym money = rat
type_synonym coercion = "rat \<Rightarrow> rat"

record date =
  year :: nat
  month :: nat
  day :: nat

record timestamp =
  ts_date :: date
  ts_micros :: nat

record product =
  p_name :: string
  quantity_in_stock :: int
  p_is_active :: bool

record customer =
  c_full_name :: string
  total_purchases :: money
  purchase_count :: int
  is_eligible_for_discount :: bool
  discount_percentage :: int
  c_updated_at :: timestamp

datatype txn_status = pending | completed | cancelled

record transaction_row =
  t_id :: uuid
  transaction_number :: string
  t_customer_id :: "uuid option"
  cashier_id :: uuid
  subtotal :: money
  discount_amount :: money
  tax :: money
  total_amount :: money
  t_payment_method :: "string option"
  status :: txn_status
  t_notes :: "string option"
  t_created_at :: timestamp
  t_updated_at :: timestamp

record transaction_item =
  ti_transaction_id :: uuid
  ti_product_id :: uuid
  ti_quantity :: int
  ti_unit_price :: money
  line_total :: money

record inventory_log =
  il_product_id :: uuid
  il_action :: string
  quantity_change :: int
  il_created_by :: "uuid option"

text \<open>
  One element of \<open>items\<close> in the body of POST /api/transactions; \<open>unit_price\<close>
  is the decimal literal of the body.
\<close>

record sale_item =
  product_id :: uuid
  quantity :: int
  unit_price :: money

record customer_receipt =
  rd_receipt_number :: string
  transaction_date :: timestamp
  customer_name :: string
  rd_items :: "sale_item list"
  rd_subtotal :: money
  rd_discount :: money
  rd_tax :: money
  rd_total :: money
  rd_payment_method :: "string option"

record merchant_receipt =
  m_receipt_number :: string
  m_transaction_id :: uuid
  m_cashier_id :: uuid
  m_customer_data :: customer_receipt

record receipt_row =
  r_transaction_id :: uuid
  receipt_number :: string
  customer_receipt_data :: customer_receipt
  merchant_receipt_data :: merchant_receipt

record audit_log =
  al_user_id :: uuid
  al_action :: string
  entity_type :: string
  entity_id :: uuid

record payment_breakdown =
  pb_cash :: money
  pb_card :: money
  pb_check :: money

record report_summary_data =
  rs_total_sales :: money
  rs_total_transactions :: nat
  average_transaction :: money
  rs_payment_breakdown :: payment_breakdown

text \<open>
  The columns of \<open>daily_reports\<close> that the report handler names in its payload, and
  the row: the payload with the columns the table fills in itself.
\<close>

record report_payload =
  report_date :: date
  dr_total_sales :: money
  dr_total_transactions :: nat
  dr_total_discount_given :: money
  dr_total_tax :: money
  cash_sales :: money
  card_sales :: money
  check_sales :: money
  top_products :: "(string \<times> int) list"
  report_summary :: report_summary_data
  generated_by :: "uuid option"

record daily_report =
  dr_payload :: report_payload
  dr_id :: uuid
  new_customers :: int
  returning_customers :: int
  dr_created_at :: timestamp

datatype password_hash = Bcrypt string nat

record user_row =
  u_id :: uuid
  u_email :: string
  u_password_hash :: password_hash
  u_full_name :: string
  u_role :: string
  u_is_active :: bool
  u_created_at :: timestamp

text \<open>
  The record store.  Tables with a lookup by primary key only are maps; tables that are
  scanned are lists in insertion order.
\<close>

record db =
  products :: "uuid \<rightharpoonup> product"
  customers :: "uuid \<rightharpoonup> customer"
  transactions :: "transaction_row list"
  transaction_items :: "transaction_item list"
  receipts :: "receipt_row list"
  inventory_logs :: "inventory_log list"
  daily_reports :: "daily_report list"
  users :: "user_row list"
  audit_logs :: "audit_log list"

text \<open>
  What a handler reads from outside the store: the clock, the values returned by
  \<open>Math.random()\<close> for the sale and for the receipt number, the key the database
  generates for a new row, and the signing secret.
\<close>

record env =
  now :: timestamp
  random_txn :: rat
  random_rcp :: rat
  fresh_id :: uuid
  jwt_secret :: string

text \<open>The authenticated user that \<open>authMiddleware\<close> puts into \<open>req.user\<close>.\<close>

record req_user =
  user_id :: uuid
  user_role :: string

section \<open>Errors\<close>

datatype db_error =
    UniqueViolation string
  | ForeignKeyViolation string
  | CheckViolation string
  | ValueTooLong string
  | DatatypeMismatch string
  | NoRowReturned

text \<open>
  Every way a handler answers other than with its success body.  \<open>InternalTypeError\<close>
  is the \<open>TypeError\<close> of a property read on \<open>null\<close>, caught by the handler's
  \<open>catch\<close>; \<open>InternalStore\<close> is a store error that the handler throws.
\<close>

datatype api_error =
    MissingRequiredFields
  | TransactionMustHaveItems
  | InsufficientStock uuid
  | StoreRejected db_error
  | Unauthorized
  | InternalStore db_error
  | InternalTypeError

fun http_status :: "api_error \<Rightarrow> nat" where
  "http_status MissingRequiredFields = 400"
| "http_status TransactionMustHaveItems = 400"
| "http_status (InsufficientStock pid) = 400"
| "http_status (StoreRejected e) = 400"
| "http_status Unauthorized = 403"
| "http_status (InternalStore e) = 500"
| "http_status InternalTypeError = 500"

section \<open>Timestamps\<close>

definition date_less :: "date \<Rightarrow> date \<Rightarrow> bool" where
  "date_less a b \<longleftrightarrow>
     year a < year b \<or> (year a = year b \<and> (month a < month b \<or> (month a = month b \<and> day a < day b)))"

definition ts_less :: "timestamp \<Rightarrow> timestamp \<Rightarrow> bool" where
  "ts_less a b \<longleftrightarrow>
     date_less (ts_date a) (ts_date b) \<or> (ts_date a = ts_date b \<and> ts_micros a < ts_micros b)"

definition ts_ge :: "timestamp \<Rightarrow> timestamp \<Rightarrow> bool" where
  "ts_ge a b \<longleftrightarrow> \<not> ts_less a b"

text \<open>The timestamp written \<open>`${dateStr}T${hh}:${mm}:${ss}`\<close>.\<close>

definition at_time :: "date \<Rightarrow> nat \<Rightarrow> nat \<Rightarrow> nat \<Rightarrow> timestamp" where
  "at_time d hh mm ss = \<lparr>ts_date = d, ts_micros = ((hh * 60 + mm) * 60 + ss) * 1000000\<rparr>"

section \<open>JavaScript numbers\<close>

text \<open>
  The numbers of the handlers are IEEE 754 doubles.  A finite double is a rational, and
  the type \<open>money\<close> holds it exactly; an operation of the handler is the exact
  operation followed by the rounding to the nearest double, ties to the even significand
  (53 bits, exponents from -1022, below them the fixed spacing of the subnormals).
  Results past the largest finite double (\<open>Infinity\<close>, \<open>NaN\<close>) have no value here:
  such an amount cannot be stored in a DECIMAL(10, 2) column.
\<close>

definition round_half_even :: "rat \<Rightarrow> int" where
  "round_half_even x =
     (let f = \<lfloor>x\<rfloor>; r = x - of_int f
      in if r < 1 / 2 then f else if r > 1 / 2 then f + 1 else if even f then f else f + 1)"

text \<open>The power of the base \<open>b\<close> with an integer exponent.\<close>

definition power_of :: "int \<Rightarrow> int \<Rightarrow> rat" where
  "power_of b n = (if 0 \<le> n then of_int b ^ nat n else 1 / of_int b ^ nat (- n))"

text \<open>
  For \<open>x\<close> from 1 on, the greatest \<open>n\<close> with \<open>b ^ n \<le> x\<close>: how often \<open>x\<close> can be
  divided by the base before it falls below it.
\<close>

function divisions :: "int \<Rightarrow> rat \<Rightarrow> int" where
  "divisions b x = (if b < 2 \<or> x < of_int b then 0 else divisions b (x / of_int b) + 1)"
  by pat_completeness auto
termination
proof (relation "measure (\<lambda>(b, x). nat \<lfloor>x\<rfloor>)")
  show "wf (measure (\<lambda>(b :: int, x :: rat). nat \<lfloor>x\<rfloor>))" by simp
next
  fix b :: int and x :: rat
  assume "\<not> (b < 2 \<or> x < of_int b)"
  then have b: "(2 :: rat) \<le> of_int b" and x: "of_int b \<le> x" by simp_all
  then have x2: "2 \<le> x" by linarith
  have "x / of_int b \<le> x / 2" using b x2 by (intro divide_left_mono) auto
  moreover have "x / 2 \<le> x - 1" using x2 by simp
  moreover have "x - 1 < of_int \<lfloor>x\<rfloor>" by linarith
  ultimately have "x / of_int b < of_int \<lfloor>x\<rfloor>" by linarith
  then have "\<lfloor>x / of_int b\<rfloor> < \<lfloor>x\<rfloor>" by (simp add: floor_less_iff)
  moreover have "0 < \<lfloor>x\<rfloor>" using x2 by (simp add: less_floor_iff)
  ultimately show "((b, x / of_int b), (b, x)) \<in> measure (\<lambda>(b, x). nat \<lfloor>x\<rfloor>)" by simp
qed

text \<open>
  For \<open>y\<close> above 1, the least \<open>n\<close> with \<open>y \<le> b ^ n\<close>: how often \<open>y\<close> must be divided
  by the base until it is at most 1.
\<close>

function reductions :: "int \<Rightarrow> rat \<Rightarrow> int" where
  "reductions b y = (if b < 2 \<or> y \<le> 1 then 0 else reductions b (y / of_int b) + 1)"
  by pat_completeness auto
termination
proof (relation "measure (\<lambda>(b, y). nat \<lfloor>y\<rfloor>)")
  show "wf (measure (\<lambda>(b :: int, y :: rat). nat \<lfloor>y\<rfloor>))" by simp
next
  fix b :: int and y :: rat
  assume "\<not> (b < 2 \<or> y \<le> 1)"
  then have b: "(2 :: rat) \<le> of_int b" and y: "1 < y" by simp_all
  have low: "y - 1 < of_int \<lfloor>y\<rfloor>" by linarith
  have "1 \<le> \<lfloor>y\<rfloor>" using y by (simp add: le_floor_iff)
  then have one: "(1 :: rat) \<le> of_int \<lfloor>y\<rfloor>" by simp
  have half: "y / of_int b \<le> y / 2" using b y by (intro divide_left_mono) auto
  have "y / 2 < of_int \<lfloor>y\<rfloor>"
  proof (cases "2 \<le> y")
    case True
    then have "y / 2 \<le> y - 1" by simp
    with low show ?thesis by linarith
  next
    case False
    then have "y / 2 < 1" by simp
    with one show ?thesis by linarith
  qed
  with half have "y / of_int b < of_int \<lfloor>y\<rfloor>" by linarith
  then have "\<lfloor>y / of_int b\<rfloor> < \<lfloor>y\<rfloor>" by (simp add: floor_less_iff)
  moreover have "0 < \<lfloor>y\<rfloor>" using y by (simp add: less_floor_iff)
  ultimately show "((b, y / of_int b), (b, y)) \<in> measure (\<lambda>(b, y). nat \<lfloor>y\<rfloor>)" by simp
qed

text \<open>For a positive \<open>x\<close>, the integer \<open>n\<close> with \<open>b ^ n \<le> x < b ^ (n + 1)\<close>.\<close>

definition magnitude :: "int \<Rightarrow> rat \<Rightarrow> int" where
  "magnitude b x = (if 1 \<le> x then divisions b x else - reductions b (1 / x))"

text \<open>
  The double nearest to \<open>x\<close>: what \<open>JSON.parse\<close> makes of a decimal literal, and what
  every arithmetic operation makes of its exact result.
\<close>

definition to_double :: "rat \<Rightarrow> rat" where
  "to_double x =
     (if x = 0 then 0
      else
        let ulp = power_of 2 (max (magnitude 2 \<bar>x\<bar>) (- 1022) - 52)
        in sgn x * of_int (round_half_even (\<bar>x\<bar> / ulp)) * ulp)"

definition js_add :: "rat \<Rightarrow> rat \<Rightarrow> rat" where
  "js_add a b = to_double (a + b)"

definition js_sub :: "rat \<Rightarrow> rat \<Rightarrow> rat" where
  "js_sub a b = to_double (a - b)"

definition js_mul :: "rat \<Rightarrow> rat \<Rightarrow> rat" where
  "js_mul a b = to_double (a * b)"

definition js_div :: "rat \<Rightarrow> rat \<Rightarrow> rat" where
  "js_div a b = to_double (a / b)"

text \<open>
  The text of a number in a JSON body (\<open>JSON.stringify\<close>, that is \<open>Number::toString\<close>
  of ECMAScript): the decimal with the fewest significant digits \<open>k\<close> that reads back
  as the same double and, among those of \<open>k\<close> digits, the one nearest to it (the even
  last digit at equal distance).  Seventeen digits always tell a double apart.
  \<open>nearest_decimal k x\<close> looks among the decimals of \<open>k\<close> digits at the two around a
  positive \<open>x\<close>; \<open>number_text\<close> is the value of the text.
\<close>

definition nearest_decimal :: "nat \<Rightarrow> rat \<Rightarrow> rat option" where
  "nearest_decimal k x =
     (let u = power_of 10 (magnitude 10 x + 1 - int k);
          s = \<lfloor>x / u\<rfloor>;
          lo = of_int s * u;
          hi = of_int (s + 1) * u
      in if to_double lo = x \<and> to_double hi = x
         then (if x - lo < hi - x then Some lo
               else if hi - x < x - lo then Some hi
               else if even s then Some lo else Some hi)
         else if to_double lo = x then Some lo
         else if to_double hi = x then Some hi
         else None)"

function shortest_decimal :: "nat \<Rightarrow> rat \<Rightarrow> rat" where
  "shortest_decimal k x =
     (if 17 < k then x
      else (case nearest_decimal k x of
              Some c \<Rightarrow> c
            | None \<Rightarrow> shortest_decimal (k + 1) x))"
  by pat_completeness auto
termination
  by (relation "measure (\<lambda>(k, x). 18 - k)") auto

definition number_text :: "rat \<Rightarrow> rat" where
  "number_text x = (if x = 0 then 0 else sgn x * shortest_decimal 1 \<bar>x\<bar>)"

text \<open>
  PostgreSQL rounds a decimal that is written into a DECIMAL(n, 2) column to two places,
  ties away from zero.
\<close>

definition numeric_scale_2 :: coercion where
  "numeric_scale_2 x = sgn x * of_int \<lfloor>\<bar>x\<bar> * 100 + 1 / 2\<rfloor> / 100"

section \<open>Number strings (02_BACKEND_SERVER.js, lines 537 and 576)\<close>

definition digit_char :: "nat \<Rightarrow> char" where
  "digit_char n = ''0123456789'' ! n"

text \<open>\<open>String(n)\<close> and \<open>n.toString()\<close> of a non-negative integer.\<close>

fun string_of_nat :: "nat \<Rightarrow> string" where
  "string_of_nat n =
     (if n < 10 then [digit_char n] else string_of_nat (n div 10) @ [digit_char (n mod 10)])"

declare string_of_nat.simps [simp del]

text \<open>\<open>s.padStart(n, c)\<close> with a one-character filler.\<close>

definition padStart :: "nat \<Rightarrow> char \<Rightarrow> string \<Rightarrow> string" where
  "padStart n c s = replicate (n - length s) c @ s"

text \<open>\<open>getMonth()\<close> counts months from 0; the record holds the calendar month.\<close>

definition getFullYear :: "timestamp \<Rightarrow> nat" where
  "getFullYear t = year (ts_date t)"

definition getMonth :: "timestamp \<Rightarrow> nat" where
  "getMonth t = month (ts_date t) - 1"

definition getDate :: "timestamp \<Rightarrow> nat" where
  "getDate t = day (ts_date t)"

definition date_digits :: "timestamp \<Rightarrow> string" where
  "date_digits t =
     string_of_nat (getFullYear t)
     @ padStart 2 (CHR ''0'') (string_of_nat (getMonth t + 1))
     @ padStart 2 (CHR ''0'') (string_of_nat (getDate t))"

text \<open>\<open>Math.floor(Math.random() * 10000).toString().padStart(5, '0')\<close>, for the
  value \<open>r\<close> that \<open>Math.random()\<close> returned.\<close>

definition random_digits :: "rat \<Rightarrow> string" where
  "random_digits r = padStart 5 (CHR ''0'') (string_of_nat (nat \<lfloor>r * 10000\<rfloor>))"

definition transactionNumber :: "timestamp \<Rightarrow> rat \<Rightarrow> string" where
  "transactionNumber t r = ''TXN-'' @ date_digits t @ ''-'' @ random_digits r"

definition receiptNumber :: "timestamp \<Rightarrow> rat \<Rightarrow> string" where
  "receiptNumber t r = ''RCP-'' @ date_digits t @ ''-'' @ random_digits r"

section \<open>Database triggers (01_DATABASE_SCHEMA.sql, section 12)\<close>

text \<open>
  A row-level trigger function returns a row.  PostgreSQL stores the returned row in place
  of \<open>NEW\<close> only for a trigger declared BEFORE; for a trigger declared AFTER the row
  is already written and the returned value is discarded.
\<close>

datatype trigger_timing = BEFORE | AFTER

definition fire_row_trigger :: "trigger_timing \<Rightarrow> ('r \<Rightarrow> 'r) \<Rightarrow> 'r \<Rightarrow> 'r" where
  "fire_row_trigger timing f new = (case timing of BEFORE \<Rightarrow> f new | AFTER \<Rightarrow> new)"

text \<open>Function \<open>check_customer_eligibility()\<close>: the row it returns for \<open>NEW\<close>.\<close>

definition check_customer_eligibility :: "customer \<Rightarrow> customer" where
  "check_customer_eligibility new =
     (if purchase_count new \<ge> 10 \<or> total_purchases new \<ge> 1000
      then new\<lparr>is_eligible_for_discount := True, discount_percentage := 5\<rparr>
      else new)"

text \<open>\<open>CREATE TRIGGER customer_eligibility_trigger AFTER UPDATE ON customers FOR EACH ROW\<close>.\<close>

definition customer_eligibility_trigger :: "customer \<Rightarrow> customer" where
  "customer_eligibility_trigger new = fire_row_trigger AFTER check_customer_eligibility new"

text \<open>
  Function \<open>update_customer_totals()\<close>, fired after the insert of a transaction with a
  customer and status completed.  Its UPDATE of the customer's row fires
  \<open>customer_eligibility_trigger\<close>.  (\<open>total_purchases\<close> is a DECIMAL(12, 2) column.)
\<close>

definition update_customer_totals :: "coercion \<Rightarrow> timestamp \<Rightarrow> transaction_row \<Rightarrow> db \<Rightarrow> db" where
  "update_customer_totals q t new d =
     (case t_customer_id new of
        None \<Rightarrow> d
      | Some cid \<Rightarrow>
          (case customers d cid of
             None \<Rightarrow> d
           | Some c \<Rightarrow>
               d\<lparr>customers := (customers d)(cid \<mapsto>
                    customer_eligibility_trigger
                      (c\<lparr>total_purchases := q (total_purchases c + total_amount new),
                         purchase_count := purchase_count c + 1,
                         c_updated_at := t\<rparr>))\<rparr>))"

text \<open>
  Function \<open>update_product_quantity()\<close>, fired after the insert of a transaction item:
  it takes the item's quantity off the product's stock and writes an inventory log of the
  purchase, in the name of the transaction's cashier.
\<close>

definition cashier_of :: "db \<Rightarrow> uuid \<Rightarrow> uuid option" where
  "cashier_of d tid = map_option cashier_id (find (\<lambda>t. t_id t = tid) (transactions d))"

definition update_product_quantity :: "transaction_item \<Rightarrow> db \<Rightarrow> db" where
  "update_product_quantity new d =
     d\<lparr>products :=
          (case products d (ti_product_id new) of
             None \<Rightarrow> products d
           | Some p \<Rightarrow> (products d)(ti_product_id new \<mapsto>
               p\<lparr>quantity_in_stock := quantity_in_stock p - ti_quantity new\<rparr>)),
        inventory_logs := inventory_logs d @
          [\<lparr>il_product_id = ti_product_id new, il_action = ''purchase'',
            quantity_change = - ti_quantity new,
            il_created_by = cashier_of d (ti_transaction_id new)\<rparr>]\<rparr>"

section \<open>Creating a sale (02_BACKEND_SERVER.js, POST /api/transactions)\<close>

record sale_request =
  customer_id :: "uuid option"
  items :: "sale_item list option"
  payment_method :: "string option"
  req_notes :: "string option"

record receipt_reply =
  rr_receipt_number :: string
  rr_customer_data :: customer_receipt

record sale_reply =
  transaction :: transaction_row
  receipt :: receipt_reply

text \<open>
  The stock verification loop (lines 493 to 506): the product id of the first item whose
  product is missing or has less stock than the item asks for.
\<close>

fun verify_stock :: "db \<Rightarrow> sale_item list \<Rightarrow> uuid option" where
  "verify_stock d [] = None"
| "verify_stock d (item # rest) =
     (case products d (product_id item) of
        None \<Rightarrow> Some (product_id item)
      | Some p \<Rightarrow>
          if quantity_in_stock p < quantity item then Some (product_id item)
          else verify_stock d rest)"

text \<open>
  \<open>item.quantity * item.unit_price\<close> (lines 514 and 570), on the doubles that
  \<open>express.json()\<close> read from the body.
\<close>

definition lineTotal :: "sale_item \<Rightarrow> money" where
  "lineTotal item = js_mul (to_double (of_int (quantity item))) (to_double (unit_price item))"

text \<open>The subtotal loop (lines 513 to 516), from the running value \<open>acc\<close>.\<close>

fun add_line_totals :: "money \<Rightarrow> sale_item list \<Rightarrow> money" where
  "add_line_totals acc [] = acc"
| "add_line_totals acc (item # rest) = add_line_totals (js_add acc (lineTotal item)) rest"

text \<open>The customer row read at lines 519 to 527: \<open>null\<close> without a customer id.\<close>

definition customerData :: "db \<Rightarrow> uuid option \<Rightarrow> customer option" where
  "customerData d cid = (case cid of None \<Rightarrow> None | Some c \<Rightarrow> customers d c)"

text \<open>
  Lines 528 to 530: the discount stays 0 unless the customer row is flagged; else it is
  \<open>subtotal * (data.discount_percentage / 100)\<close>.
\<close>

definition discount_of :: "money \<Rightarrow> customer option \<Rightarrow> money" where
  "discount_of sub cd =
     (case cd of
        None \<Rightarrow> 0
      | Some c \<Rightarrow>
          if is_eligible_for_discount c
          then js_mul sub (js_div (to_double (of_int (discount_percentage c))) 100)
          else 0)"

text \<open>Line 533: \<open>(subtotal - discount) * 0.1\<close>, with the double that \<open>0.1\<close> denotes.\<close>

definition tax_of :: "money \<Rightarrow> money \<Rightarrow> money" where
  "tax_of sub disc = js_mul (js_sub sub disc) (to_double (1 / 10))"

text \<open>Line 534: \<open>subtotal - discount + tax\<close>, from the left.\<close>

definition totalAmount :: "money \<Rightarrow> money \<Rightarrow> money \<Rightarrow> money" where
  "totalAmount sub disc tx = js_add (js_sub sub disc) tx"

definition valid_payment_method :: "string option \<Rightarrow> bool" where
  "valid_payment_method pm =
     (case pm of None \<Rightarrow> True | Some m \<Rightarrow> m = ''cash'' \<or> m = ''card'' \<or> m = ''check'')"

text \<open>
  The insert into \<open>transactions\<close> with the constraints of the table: the number is
  unique, the customer must exist, the payment method is one of three.  The money columns
  are DECIMAL(10, 2): each takes the text of the number of the payload, coerced.  The
  insert fires \<open>update_customer_totals_trigger\<close>.
\<close>

definition stored_transaction :: "coercion \<Rightarrow> env \<Rightarrow> transaction_row \<Rightarrow> transaction_row" where
  "stored_transaction q e payload =
     payload\<lparr>t_id := fresh_id e,
             subtotal := q (number_text (subtotal payload)),
             discount_amount := q (number_text (discount_amount payload)),
             tax := q (number_text (tax payload)),
             total_amount := q (number_text (total_amount payload)),
             t_created_at := now e,
             t_updated_at := now e\<rparr>"

definition insert_transaction ::
  "coercion \<Rightarrow> env \<Rightarrow> transaction_row \<Rightarrow> db \<Rightarrow> db_error + (transaction_row \<times> db)" where
  "insert_transaction q e payload d =
     (if \<exists>t \<in> set (transactions d). transaction_number t = transaction_number payload
      then Inl (UniqueViolation ''transaction_number'')
      else if (case t_customer_id payload of None \<Rightarrow> False | Some c \<Rightarrow> customers d c = None)
      then Inl (ForeignKeyViolation ''customer_id'')
      else if \<not> valid_payment_method (t_payment_method payload)
      then Inl (CheckViolation ''payment_method'')
      else
        let row = stored_transaction q e payload;
            d1 = d\<lparr>transactions := transactions d @ [row]\<rparr>
        in Inr (row,
                if t_customer_id row \<noteq> None \<and> status row = completed
                then update_customer_totals q (now e) row d1 else d1))"

text \<open>
  One round of the loop at lines 561 to 573.  The handler does not look at the result of
  the insert, so a rejected insert (no such product) leaves the store as it was.
\<close>

definition insert_transaction_item :: "coercion \<Rightarrow> transaction_row \<Rightarrow> db \<Rightarrow> sale_item \<Rightarrow> db" where
  "insert_transaction_item q txn d item =
     (case products d (product_id item) of
        None \<Rightarrow> d
      | Some p \<Rightarrow>
          let row = \<lparr>ti_transaction_id = t_id txn,
                     ti_product_id = product_id item,
                     ti_quantity = quantity item,
                     ti_unit_price = q (number_text (to_double (unit_price item))),
                     line_total = q (number_text (lineTotal item))\<rparr>
          in update_product_quantity row (d\<lparr>transaction_items := transaction_items d @ [row]\<rparr>))"

text \<open>The insert into \<open>receipts\<close> (lines 597 to 606); its result is not looked at.\<close>

definition insert_receipt :: "receipt_row \<Rightarrow> db \<Rightarrow> db" where
  "insert_receipt row d =
     (if \<exists>r \<in> set (receipts d). receipt_number r = receipt_number row then d
      else d\<lparr>receipts := receipts d @ [row]\<rparr>)"

text \<open>
  Lines 508 to 553: the totals, and the row handed to the insert.  The database sets the
  id and the timestamps.
\<close>

definition sale_payload :: "env \<Rightarrow> req_user \<Rightarrow> sale_request \<Rightarrow> db \<Rightarrow> sale_item list \<Rightarrow> transaction_row" where
  "sale_payload e u req d its =
     (let sub = add_line_totals 0 its;
          disc = discount_of sub (customerData d (customer_id req));
          tx = tax_of sub disc
      in \<lparr>t_id = 0,
          transaction_number = transactionNumber (now e) (random_txn e),
          t_customer_id = customer_id req,
          cashier_id = user_id u,
          subtotal = sub,
          discount_amount = disc,
          tax = tx,
          total_amount = totalAmount sub disc tx,
          t_payment_method = payment_method req,
          status = completed,
          t_notes = req_notes req,
          t_created_at = now e,
          t_updated_at = now e\<rparr>)"

text \<open>
  Lines 576 to 588: \<open>customerReceiptData\<close>, from the values computed for the payload
  (the numbers as computed, not as stored).
\<close>

definition customerReceiptData ::
  "env \<Rightarrow> sale_request \<Rightarrow> db \<Rightarrow> sale_item list \<Rightarrow> transaction_row \<Rightarrow> customer_receipt" where
  "customerReceiptData e req d its payload =
     \<lparr>rd_receipt_number = receiptNumber (now e) (random_rcp e),
      transaction_date = now e,
      customer_name =
        (case customerData d (customer_id req) of
           None \<Rightarrow> ''Guest''
         | Some c \<Rightarrow> if c_full_name c = [] then ''Guest'' else c_full_name c),
      rd_items = its,
      rd_subtotal = subtotal payload,
      rd_discount = discount_amount payload,
      rd_tax = tax payload,
      rd_total = total_amount payload,
      rd_payment_method = payment_method req\<rparr>"

text \<open>Lines 590 to 606: the receipt row of a stored transaction.\<close>

definition receipt_of :: "req_user \<Rightarrow> transaction_row \<Rightarrow> customer_receipt \<Rightarrow> receipt_row" where
  "receipt_of u txn crd =
     \<lparr>r_transaction_id = t_id txn,
      receipt_number = rd_receipt_number crd,
      customer_receipt_data = crd,
      merchant_receipt_data =
        \<lparr>m_receipt_number = rd_receipt_number crd,
         m_transaction_id = t_id txn,
         m_cashier_id = user_id u,
         m_customer_data = crd\<rparr>\<rparr>"

definition createSale ::
  "coercion \<Rightarrow> env \<Rightarrow> req_user \<Rightarrow> sale_request \<Rightarrow> db \<Rightarrow> (api_error + sale_reply) \<times> db" where
  "createSale q e u req d =
     (case items req of
        None \<Rightarrow> (Inl TransactionMustHaveItems, d)
      | Some its \<Rightarrow>
          if length its = 0 then (Inl TransactionMustHaveItems, d)
          else
            (case verify_stock d its of
               Some pid \<Rightarrow> (Inl (InsufficientStock pid), d)
             | None \<Rightarrow>
                 (case insert_transaction q e (sale_payload e u req d its) d of
                    Inl err \<Rightarrow> (Inl (InternalStore err), d)
                  | Inr (txn, d1) \<Rightarrow>
                      let d2 = foldl (insert_transaction_item q txn) d1 its;
                          crd = customerReceiptData e req d its (sale_payload e u req d its);
                          d3 = insert_receipt (receipt_of u txn crd) d2
                      in (Inr \<lparr>transaction = txn,
                               receipt = \<lparr>rr_receipt_number = rd_receipt_number crd,
                                          rr_customer_data = crd\<rparr>\<rparr>,
                          d3))))"

section \<open>Cancelling a sale (02_BACKEND_SERVER.js, PUT /api/transactions/:id/cancel)\<close>

text \<open>
  What the handler puts into an update payload: a number, or the query builder that
  \<open>supabase.rpc(name, args)\<close> returns when it is not awaited.
\<close>

datatype js_value = JSNumber int | JSQueryBuilder string

text \<open>
  \<open>supabase.from('products').update({ quantity_in_stock: v })\<close> as written at lines
  665 to 672, with no filter on the rows.  The column is an INTEGER: a payload whose value
  is not a number is rejected and no row changes.
\<close>

definition update_quantity_in_stock :: "js_value \<Rightarrow> db \<Rightarrow> db_error + db" where
  "update_quantity_in_stock v d =
     (case v of
        JSNumber n \<Rightarrow>
          Inr (d\<lparr>products := (\<lambda>pid. map_option (\<lambda>p. p\<lparr>quantity_in_stock := n\<rparr>) (products d pid))\<rparr>)
      | JSQueryBuilder f \<Rightarrow> Inl (DatatypeMismatch ''quantity_in_stock''))"

text \<open>
  One round of the loop at lines 664 to 673.  The value of \<open>quantity_in_stock\<close> is the
  builder of the call \<open>increment_stock\<close> (a function the schema does not define),
  and the result of the update is not looked at.
\<close>

definition return_stock :: "db \<Rightarrow> transaction_item \<Rightarrow> db" where
  "return_stock d item =
     (case update_quantity_in_stock (JSQueryBuilder ''increment_stock'') d of
        Inl err \<Rightarrow> d
      | Inr d' \<Rightarrow> d')"

definition mark_cancelled :: "timestamp \<Rightarrow> uuid \<Rightarrow> transaction_row \<Rightarrow> transaction_row" where
  "mark_cancelled t tid row =
     (if t_id row = tid then row\<lparr>status := cancelled, t_updated_at := t\<rparr> else row)"

definition cancelSale :: "env \<Rightarrow> req_user \<Rightarrow> uuid \<Rightarrow> db \<Rightarrow> (api_error + transaction_row) \<times> db" where
  "cancelSale e u tid d =
     (case find (\<lambda>t. t_id t = tid) (transactions d) of
        None \<Rightarrow> (Inl InternalTypeError, d)
      | Some txn \<Rightarrow>
          if cashier_id txn \<noteq> user_id u \<and> user_role u \<noteq> ''admin''
          then (Inl Unauthorized, d)
          else
            let its = filter (\<lambda>i. ti_transaction_id i = tid) (transaction_items d);
                d1 = foldl return_stock d its;
                d2 = d1\<lparr>transactions := map (mark_cancelled (now e) tid) (transactions d1)\<rparr>
            in (case find (\<lambda>t. t_id t = tid) (transactions d2) of
                  None \<Rightarrow> (Inl (InternalStore NoRowReturned), d2)
                | Some row \<Rightarrow>
                    (Inr row,
                     d2\<lparr>audit_logs := audit_logs d2 @
                          [\<lparr>al_user_id = user_id u, al_action = ''CANCEL_TRANSACTION'',
                            entity_type = ''transactions'', entity_id = tid\<rparr>]\<rparr>)))"

section \<open>The daily report (02_BACKEND_SERVER.js, POST /api/reports/daily)\<close>

text \<open>The filter of the query at lines 710 to 715.\<close>

definition report_filter :: "date \<Rightarrow> transaction_row \<Rightarrow> bool" where
  "report_filter d t \<longleftrightarrow>
     status t = completed
     \<and> ts_ge (t_created_at t) (at_time d 0 0 0)
     \<and> ts_less (t_created_at t) (at_time d 23 59 59)"

text \<open>
  The embedded \<open>transaction_items(quantity, line_total, products(name))\<close> of a
  transaction: for each item the name of its product (\<open>null\<close> when there is no such
  product) and the quantity.
\<close>

definition items_of :: "db \<Rightarrow> transaction_row \<Rightarrow> (string option \<times> int) list" where
  "items_of d t =
     map (\<lambda>i. (map_option p_name (products d (ti_product_id i)), ti_quantity i))
       (filter (\<lambda>i. ti_transaction_id i = t_id t) (transaction_items d))"

text \<open>
  \<open>productMap\<close> (lines 732 to 740), keys in the order of their first insertion:
  \<open>productMap[name] += quantity\<close>, starting from 0 for a name not yet there.
\<close>

fun add_quantity :: "(string \<times> int) list \<Rightarrow> string \<Rightarrow> int \<Rightarrow> (string \<times> int) list" where
  "add_quantity [] name n = [(name, n)]"
| "add_quantity ((k, v) # m) name n =
     (if k = name then (k, v + n) # m else (k, v) # add_quantity m name n)"

text \<open>Reading \<open>item.products.name\<close> throws when \<open>item.products\<close> is \<open>null\<close>.\<close>

fun add_items :: "(string \<times> int) list \<Rightarrow> (string option \<times> int) list \<Rightarrow> (string \<times> int) list option" where
  "add_items m [] = Some m"
| "add_items m ((None, n) # rest) = None"
| "add_items m ((Some name, n) # rest) = add_items (add_quantity m name n) rest"

fun productMap :: "db \<Rightarrow> (string \<times> int) list \<Rightarrow> transaction_row list \<Rightarrow> (string \<times> int) list option" where
  "productMap d m [] = Some m"
| "productMap d m (t # ts) =
     (case add_items m (items_of d t) of None \<Rightarrow> None | Some m' \<Rightarrow> productMap d m' ts)"

text \<open>Lines 742 to 745: a stable sort by falling quantity, then the first five.\<close>

definition topProducts :: "(string \<times> int) list \<Rightarrow> (string \<times> int) list" where
  "topProducts m = take 5 (sort_key (\<lambda>entry. - snd entry) m)"

text \<open>
  The sums of lines 720 to 728, on the doubles read from the rows:
  \<open>transactions.reduce((sum, t) => sum + parseFloat(t.total_amount), 0)\<close>.
\<close>

definition sum_total_amount :: "transaction_row list \<Rightarrow> money" where
  "sum_total_amount ts = foldl (\<lambda>s t. js_add s (to_double (total_amount t))) 0 ts"

definition sales_by_method :: "string \<Rightarrow> transaction_row list \<Rightarrow> money" where
  "sales_by_method m ts = sum_total_amount (filter (\<lambda>t. t_payment_method t = Some m) ts)"

text \<open>
  The upsert on \<open>report_date\<close> (lines 754 to 772): a row of that date takes the values
  of the payload and keeps its other columns; without such a row the payload is inserted,
  with the defaults of the table for the other columns.
\<close>

definition overwrite_report :: "report_payload \<Rightarrow> daily_report \<Rightarrow> daily_report" where
  "overwrite_report payload old =
     (if report_date (dr_payload old) = report_date payload
      then old\<lparr>dr_payload := payload\<rparr>
      else old)"

definition upsert_daily_report :: "env \<Rightarrow> report_payload \<Rightarrow> db \<Rightarrow> db" where
  "upsert_daily_report e payload d =
     (if \<exists>r \<in> set (daily_reports d). report_date (dr_payload r) = report_date payload
      then d\<lparr>daily_reports := map (overwrite_report payload) (daily_reports d)\<rparr>
      else d\<lparr>daily_reports := daily_reports d @
             [\<lparr>dr_payload = payload, dr_id = fresh_id e, new_customers = 0,
               returning_customers = 0, dr_created_at = now e\<rparr>]\<rparr>)"

text \<open>
  Lines 710 to 770: the metrics of the day \<open>dateStr\<close> and the payload of the upsert.
  There is none when reading a product name throws.
\<close>

definition daily_payload :: "coercion \<Rightarrow> req_user \<Rightarrow> date \<Rightarrow> db \<Rightarrow> report_payload option" where
  "daily_payload q u dateStr d =
     (let ts = filter (report_filter dateStr) (transactions d);
          totalSales = sum_total_amount ts;
          totalTransactions = length ts;
          totalDiscount = foldl (\<lambda>s t. js_add s (to_double (discount_amount t))) 0 ts;
          totalTax = foldl (\<lambda>s t. js_add s (to_double (tax t))) 0 ts;
          paymentMethods = \<lparr>pb_cash = sales_by_method ''cash'' ts,
                            pb_card = sales_by_method ''card'' ts,
                            pb_check = sales_by_method ''check'' ts\<rparr>
      in (case productMap d [] ts of
            None \<Rightarrow> None
          | Some m \<Rightarrow>
              Some \<lparr>report_date = dateStr,
                    dr_total_sales = q (number_text totalSales),
                    dr_total_transactions = totalTransactions,
                    dr_total_discount_given = q (number_text totalDiscount),
                    dr_total_tax = q (number_text totalTax),
                    cash_sales = q (number_text (pb_cash paymentMethods)),
                    card_sales = q (number_text (pb_card paymentMethods)),
                    check_sales = q (number_text (pb_check paymentMethods)),
                    top_products = topProducts m,
                    report_summary =
                      \<lparr>rs_total_sales = totalSales,
                       rs_total_transactions = totalTransactions,
                       average_transaction =
                         (if totalTransactions > 0
                          then js_div totalSales (to_double (of_nat totalTransactions))
                          else 0),
                       rs_payment_breakdown = paymentMethods\<rparr>,
                    generated_by = Some (user_id u)\<rparr>))"

text \<open>
  The handler: \<open>report_date\<close> of the body, or today without one; the answer is the
  row of that date after the upsert.
\<close>

definition generateDaily ::
  "coercion \<Rightarrow> env \<Rightarrow> req_user \<Rightarrow> date option \<Rightarrow> db \<Rightarrow> (api_error + daily_report) \<times> db" where
  "generateDaily q e u rd d =
     (let dateStr = (case rd of None \<Rightarrow> ts_date (now e) | Some x \<Rightarrow> x)
      in (case daily_payload q u dateStr d of
            None \<Rightarrow> (Inl InternalTypeError, d)
          | Some payload \<Rightarrow>
              let d1 = upsert_daily_report e payload d
              in (case find (\<lambda>r. report_date (dr_payload r) = dateStr) (daily_reports d1) of
                    None \<Rightarrow> (Inl (InternalStore NoRowReturned), d1)
                  | Some report \<Rightarrow> (Inr report, d1))))"

section \<open>Registration (02_BACKEND_SERVER.js, POST /api/auth/register)\<close>









section \<open>The specification's formulas\<close>

text \<open>
  The rounding rule that the specification names: half-even, at two decimals.
\<close>

definition round_half_even_2dp :: coercion where
  "round_half_even_2dp x = of_int (round_half_even (x * 100)) / 100"

text \<open>The specification's subtotal: the sum over the items of quantity times unit price.\<close>

definition spec_subtotal :: "sale_item list \<Rightarrow> money" where
  "spec_subtotal its = (\<Sum>item\<leftarrow>its. of_int (quantity item) * unit_price item)"

text \<open>
  The specification's discount: subtotal times pct / 100 for an eligible customer, else 0
  (also without a customer).
\<close>

definition spec_discount :: "money \<Rightarrow> customer option \<Rightarrow> money" where
  "spec_discount sub c =
     (case c of
        None \<Rightarrow> 0
      | Some cu \<Rightarrow>
          if is_eligible_for_discount cu then sub * of_int (discount_percentage cu) / 100
          else 0)"

text \<open>
  The same formulas on doubles, as the amended claim has them: the sum is taken from the
  left, from 0, and every operation rounds to the nearest double.
\<close>

definition double_subtotal :: "sale_item list \<Rightarrow> money" where
  "double_subtotal its =
     foldl (\<lambda>s item. js_add s (js_mul (to_double (of_int (quantity item)))
                                       (to_double (unit_price item)))) 0 its"

definition double_discount :: "money \<Rightarrow> customer option \<Rightarrow> money" where
  "double_discount sub c =
     (case c of
        None \<Rightarrow> 0
      | Some cu \<Rightarrow>
          if is_eligible_for_discount cu
          then js_mul sub (js_div (to_double (of_int (discount_percentage cu))) 100)
          else 0)"

definition double_tax :: "money \<Rightarrow> money \<Rightarrow> money" where
  "double_tax sub disc = js_mul (js_sub sub disc) (to_double (10 / 100))"

definition double_total :: "money \<Rightarrow> money \<Rightarrow> money \<Rightarrow> money" where
  "double_total sub disc tx = js_add (js_sub sub disc) tx"

section \<open>Sample data\<close>

definition ex_day :: date where
  "ex_day = \<lparr>year = 2024, month = 1, day = 15\<rparr>"

definition ex_env :: env where
  "ex_env = \<lparr>now = at_time ex_day 15 45 0, random_txn = 1 / 2, random_rcp = 1 / 4,
             fresh_id = 100, jwt_secret = ''secret''\<rparr>"

definition later_env :: env where
  "later_env = \<lparr>now = at_time ex_day 15 46 0, random_txn = 1 / 4, random_rcp = 3 / 4,
                fresh_id = 101, jwt_secret = ''secret''\<rparr>"

definition empty_db :: db where
  "empty_db = \<lparr>products = Map.empty, customers = Map.empty, transactions = [],
               transaction_items = [], receipts = [], inventory_logs = [],
               daily_reports = [], users = [], audit_logs = []\<rparr>"

definition cashier7 :: req_user where
  "cashier7 = \<lparr>user_id = 7, user_role = ''cashier''\<rparr>"

definition admin8 :: req_user where
  "admin8 = \<lparr>user_id = 8, user_role = ''admin''\<rparr>"

definition admin9 :: req_user where
  "admin9 = \<lparr>user_id = 9, user_role = ''admin''\<rparr>"

definition macbook :: product where
  "macbook = \<lparr>p_name = ''MacBook Pro'', quantity_in_stock = 10, p_is_active = True\<rparr>"

definition cable :: product where
  "cable = \<lparr>p_name = ''USB-C Cable'', quantity_in_stock = 10, p_is_active = True\<rparr>"

definition retired :: product where
  "retired = \<lparr>p_name = ''Old Phone'', quantity_in_stock = 3, p_is_active = False\<rparr>"

definition loyal :: customer where
  "loyal = \<lparr>c_full_name = ''John Doe'', total_purchases = 2500, purchase_count = 12,
            is_eligible_for_discount = True, discount_percentage = 5,
            c_updated_at = at_time ex_day 9 0 0\<rparr>"

definition nine :: customer where
  "nine = \<lparr>c_full_name = ''Jane Roe'', total_purchases = 500, purchase_count = 9,
           is_eligible_for_discount = False, discount_percentage = 0,
           c_updated_at = at_time ex_day 9 0 0\<rparr>"

definition shop_db :: db where
  "shop_db = empty_db\<lparr>products := [11 \<mapsto> macbook, 12 \<mapsto> cable, 13 \<mapsto> retired],
                      customers := [21 \<mapsto> loyal, 22 \<mapsto> nine]\<rparr>"

definition spec_items :: "sale_item list" where
  "spec_items = [\<lparr>product_id = 11, quantity = 1, unit_price = 199999 / 100\<rparr>,
                 \<lparr>product_id = 12, quantity = 2, unit_price = 2999 / 100\<rparr>]"

definition spec_request :: sale_request where
  "spec_request = \<lparr>customer_id = Some 21, items = Some spec_items,
                    payment_method = Some ''cash'', req_notes = None\<rparr>"

definition cables :: "int \<Rightarrow> sale_item" where
  "cables n = \<lparr>product_id = 12, quantity = n, unit_price = 2999 / 100\<rparr>"

definition cable_request :: "uuid option \<Rightarrow> int \<Rightarrow> sale_request" where
  "cable_request c n = \<lparr>customer_id = c, items = Some [cables n],
                         payment_method = Some ''cash'', req_notes = None\<rparr>"

text \<open>One unit of product 12 for the customer 21 (5 percent), at a price of the request.\<close>

definition priced_item :: "money \<Rightarrow> sale_item" where
  "priced_item p = \<lparr>product_id = 12, quantity = 1, unit_price = p\<rparr>"

definition priced_request :: "money \<Rightarrow> sale_request" where
  "priced_request p = \<lparr>customer_id = Some 21, items = Some [priced_item p],
                         payment_method = Some ''cash'', req_notes = None\<rparr>"

definition no_items_request :: sale_request where
  "no_items_request = \<lparr>customer_id = None, items = Some [],
                        payment_method = Some ''cash'', req_notes = None\<rparr>"

definition unknown_item :: sale_item where
  "unknown_item = \<lparr>product_id = 99, quantity = 1, unit_price = 5\<rparr>"

definition unknown_request :: sale_request where
  "unknown_request = \<lparr>customer_id = None, items = Some [unknown_item],
                       payment_method = Some ''cash'', req_notes = None\<rparr>"

definition retired_request :: sale_request where
  "retired_request = \<lparr>customer_id = None,
                       items = Some [\<lparr>product_id = 13, quantity = 1, unit_price = 50\<rparr>],
                       payment_method = Some ''card'', req_notes = None\<rparr>"

text \<open>The store after cashier 7 sold two cables, and after the cashier cancelled that sale.\<close>

definition sold_db :: db where
  "sold_db = snd (createSale round_half_even_2dp ex_env cashier7 (cable_request None 2) shop_db)"

definition cancelled_db :: db where
  "cancelled_db = snd (cancelSale later_env cashier7 100 sold_db)"

text \<open>The store after the customer with nine purchases bought one cable.\<close>

definition accrued_db :: db where
  "accrued_db =
     snd (createSale round_half_even_2dp ex_env cashier7 (cable_request (Some 22) 1) shop_db)"

text \<open>A later request for which \<open>Math.random()\<close> returns what it returned before.\<close>

definition same_draw_env :: env where
  "same_draw_env = later_env\<lparr>random_txn := 1 / 2\<rparr>"

text \<open>A completed sale stamped 23:59:59 on the sample day, and a store that holds it.\<close>

definition late_sale :: transaction_row where
  "late_sale = \<lparr>t_id = 200, transaction_number = ''TXN-20240115-00042'',
                t_customer_id = None, cashier_id = 7,
                subtotal = 100, discount_amount = 0, tax = 10, total_amount = 110,
                t_payment_method = Some ''cash'', status = completed, t_notes = None,
                t_created_at = at_time ex_day 23 59 59,
                t_updated_at = at_time ex_day 23 59 59\<rparr>"

definition late_db :: db where
  "late_db = shop_db\<lparr>transactions := [late_sale]\<rparr>"

text \<open>A sale like it at noon of the same day.\<close>

definition noon_sale :: transaction_row where
  "noon_sale = late_sale\<lparr>t_id := 201, transaction_number := ''TXN-20240115-00007'',
                         t_created_at := at_time ex_day 12 0 0,
                         t_updated_at := at_time ex_day 12 0 0\<rparr>"

definition noon_db :: db where
  "noon_db = shop_db\<lparr>transactions := [noon_sale]\<rparr>"





section \<open>Arithmetic and the loops of createSale\<close>

lemma floor_rat_numeral_div:
  "\<lfloor>(numeral a :: rat) / numeral b\<rfloor> = numeral a div numeral b"
  by (metis floor_divide_of_int_eq of_int_numeral)

lemma add_line_totals_foldl:
  "add_line_totals acc its =
     foldl (\<lambda>s item. js_add s (js_mul (to_double (of_int (quantity item)))
                                       (to_double (unit_price item)))) acc its"
  by (induction its arbitrary: acc) (simp_all add: lineTotal_def)

lemma add_line_totals_eq: "add_line_totals 0 its = double_subtotal its"
  by (simp add: add_line_totals_foldl double_subtotal_def)

lemma discount_of_eq: "discount_of sub c = double_discount sub c"
  by (simp add: discount_of_def double_discount_def split: option.splits)

lemma tax_of_eq: "tax_of sub disc = double_tax sub disc"
  by (simp add: tax_of_def double_tax_def)

lemma number_text_0: "number_text 0 = 0"
  by (simp add: number_text_def)

lemma verify_stock_fails:
  "item \<in> set its \<Longrightarrow> products d (product_id item) = Some p \<Longrightarrow>
   quantity_in_stock p < quantity item \<Longrightarrow> \<exists>pid. verify_stock d its = Some pid"
  by (induction its) (auto split: option.splits)

lemma verify_stock_unknown:
  "item \<in> set its \<Longrightarrow> products d (product_id item) = None \<Longrightarrow>
   \<exists>pid. verify_stock d its = Some pid"
  by (induction its) (auto split: option.splits)

section \<open>What the steps of createSale leave alone\<close>

lemma transactions_update_customer_totals:
  "transactions (update_customer_totals q t new d) = transactions d"
  by (simp add: update_customer_totals_def split: option.splits)

lemma products_update_customer_totals:
  "products (update_customer_totals q t new d) = products d"
  by (simp add: update_customer_totals_def split: option.splits)

lemma transactions_insert_item:
  "transactions (insert_transaction_item q txn d item) = transactions d"
  by (simp add: insert_transaction_item_def update_product_quantity_def Let_def
      split: option.splits)

lemma customers_insert_item:
  "customers (insert_transaction_item q txn d item) = customers d"
  by (simp add: insert_transaction_item_def update_product_quantity_def Let_def
      split: option.splits)

lemma products_insert_item:
  "products (insert_transaction_item q txn d item) =
     (case products d (product_id item) of
        None \<Rightarrow> products d
      | Some p \<Rightarrow> (products d)(product_id item \<mapsto>
          p\<lparr>quantity_in_stock := quantity_in_stock p - quantity item\<rparr>))"
  by (simp add: insert_transaction_item_def update_product_quantity_def Let_def
      split: option.splits)

lemma transactions_foldl_items:
  "transactions (foldl (insert_transaction_item q txn) d its) = transactions d"
  by (induction its arbitrary: d) (simp_all add: transactions_insert_item)

lemma customers_foldl_items:
  "customers (foldl (insert_transaction_item q txn) d its) = customers d"
  by (induction its arbitrary: d) (simp_all add: customers_insert_item)

lemma transactions_insert_receipt: "transactions (insert_receipt r d) = transactions d"
  by (simp add: insert_receipt_def)

lemma products_insert_receipt: "products (insert_receipt r d) = products d"
  by (simp add: insert_receipt_def)

lemma customers_insert_receipt: "customers (insert_receipt r d) = customers d"
  by (simp add: insert_receipt_def)

section \<open>The paths of createSale\<close>

lemma insert_transaction_Inr:
  assumes "insert_transaction q e payload d = Inr (txn, d1)"
  shows "txn = stored_transaction q e payload"
    and "transactions d1 = transactions d @ [txn]"
    and "products d1 = products d"
  using assms
  by (auto simp add: insert_transaction_def Let_def transactions_update_customer_totals
      products_update_customer_totals split: if_splits)

lemma insert_transaction_succeeds:
  assumes "\<forall>t \<in> set (transactions d). transaction_number t \<noteq> transaction_number payload"
    and "case t_customer_id payload of None \<Rightarrow> True | Some c \<Rightarrow> customers d c \<noteq> None"
    and "valid_payment_method (t_payment_method payload)"
  shows "\<exists>d1. insert_transaction q e payload d = Inr (stored_transaction q e payload, d1)"
  using assms by (auto simp add: insert_transaction_def Let_def split: option.splits)

lemma createSale_Inr:
  assumes "createSale q e u req d = (Inr reply, d')"
  shows "\<exists>its d1. items req = Some its \<and> its \<noteq> [] \<and> verify_stock d its = None
           \<and> insert_transaction q e (sale_payload e u req d its) d = Inr (transaction reply, d1)
           \<and> d' = insert_receipt
                    (receipt_of u (transaction reply)
                       (customerReceiptData e req d its (sale_payload e u req d its)))
                    (foldl (insert_transaction_item q (transaction reply)) d1 its)"
  using assms
  by (auto simp add: createSale_def Let_def split: option.splits if_splits sum.splits)

lemma createSale_Inl:
  assumes "createSale q e u req d = (Inl err, d')"
  shows "d' = d"
  using assms
  by (auto simp add: createSale_def Let_def split: option.splits if_splits sum.splits)

lemma createSale_succeeds:
  assumes "items req = Some its" and "its \<noteq> []" and "verify_stock d its = None"
    and "insert_transaction q e (sale_payload e u req d its) d = Inr (txn, d1)"
  shows "\<exists>reply. createSale q e u req d =
           (Inr reply,
            insert_receipt
              (receipt_of u txn (customerReceiptData e req d its (sale_payload e u req d its)))
              (foldl (insert_transaction_item q txn) d1 its))
           \<and> transaction reply = txn"
  using assms by (simp add: createSale_def Let_def)

lemma createSale_row:
  assumes "createSale q e u req d = (Inr reply, d')" and "items req = Some its"
  shows "transaction reply = stored_transaction q e (sale_payload e u req d its)"
    and "transactions d' = transactions d @ [transaction reply]"
proof -
  from createSale_Inr [OF assms(1)] assms(2) obtain d1 where
    ins: "insert_transaction q e (sale_payload e u req d its) d = Inr (transaction reply, d1)"
    and d': "d' = insert_receipt
                    (receipt_of u (transaction reply)
                       (customerReceiptData e req d its (sale_payload e u req d its)))
                    (foldl (insert_transaction_item q (transaction reply)) d1 its)"
    by auto
  show "transaction reply = stored_transaction q e (sale_payload e u req d its)"
    using insert_transaction_Inr(1) [OF ins] .
  show "transactions d' = transactions d @ [transaction reply]"
    using insert_transaction_Inr(2) [OF ins]
    by (simp add: d' transactions_insert_receipt transactions_foldl_items)
qed

lemma stored_totals:
  "subtotal (stored_transaction q e (sale_payload e u req d its))
     = q (number_text (double_subtotal its))"
  "discount_amount (stored_transaction q e (sale_payload e u req d its))
     = q (number_text (double_discount (double_subtotal its) (customerData d (customer_id req))))"
  "tax (stored_transaction q e (sale_payload e u req d its))
     = q (number_text (double_tax (double_subtotal its)
           (double_discount (double_subtotal its) (customerData d (customer_id req)))))"
  "total_amount (stored_transaction q e (sale_payload e u req d its))
     = q (number_text (double_total (double_subtotal its)
           (double_discount (double_subtotal its) (customerData d (customer_id req)))
           (double_tax (double_subtotal its)
              (double_discount (double_subtotal its) (customerData d (customer_id req))))))"
  by (simp_all add: stored_transaction_def sale_payload_def Let_def add_line_totals_eq
      discount_of_eq tax_of_eq totalAmount_def double_total_def)

section \<open>The sample sales\<close>

lemma shop_db_fields:
  "transactions shop_db = []"
  "customers shop_db 21 = Some loyal"
  "customers shop_db 22 = Some nine"
  "products shop_db 11 = Some macbook"
  "products shop_db 12 = Some cable"
  "products shop_db 13 = Some retired"
  "products shop_db 99 = None"
  by (simp_all add: shop_db_def empty_db_def)

lemma shop_sale_succeeds:
  assumes "items req = Some its" and "its \<noteq> []" and "verify_stock shop_db its = None"
    and "customer_id req = None \<or> customer_id req = Some 21 \<or> customer_id req = Some 22"
    and "valid_payment_method (payment_method req)"
  shows "\<exists>reply d'. createSale q e u req shop_db = (Inr reply, d')"
proof -
  have "\<exists>d1. insert_transaction q e (sale_payload e u req shop_db its) shop_db
     = Inr (stored_transaction q e (sale_payload e u req shop_db its), d1)"
    using assms(4,5)
    by (intro insert_transaction_succeeds)
      (auto simp add: shop_db_fields sale_payload_def Let_def)
  then obtain d1 where "insert_transaction q e (sale_payload e u req shop_db its) shop_db
     = Inr (stored_transaction q e (sale_payload e u req shop_db its), d1)" ..
  from createSale_succeeds [OF assms(1-3) this] show ?thesis by blast
qed

lemma spec_request_succeeds:
  "\<exists>reply d'. createSale q e u spec_request shop_db = (Inr reply, d')"
  by (rule shop_sale_succeeds [where its = spec_items])
    (simp_all add: spec_request_def spec_items_def shop_db_fields macbook_def cable_def
      valid_payment_method_def)

lemma spec_request_values:
  "items spec_request = Some spec_items"
  "spec_subtotal spec_items = 205997 / 100"
  "customerData shop_db (customer_id spec_request) = Some loyal"
  by (simp_all add: spec_request_def spec_subtotal_def spec_items_def customerData_def
      shop_db_fields)

section \<open>Evaluating doubles\<close>

lemmas number_eval = to_double_def Let_def magnitude_def divisions.simps reductions.simps
  power_of_def round_half_even_def floor_rat_numeral_div js_add_def js_sub_def js_mul_def
  js_div_def number_text_def shortest_decimal.simps nearest_decimal_def

lemma priced_request_succeeds:
  "\<exists>reply d'. createSale q e u (priced_request p) shop_db = (Inr reply, d')"
  by (rule shop_sale_succeeds [where its = "[priced_item p]"])
    (simp_all add: priced_request_def priced_item_def shop_db_fields cable_def
      valid_payment_method_def)

lemma priced_request_values:
  "items (priced_request p) = Some [priced_item p]"
  "customerData shop_db (customer_id (priced_request p)) = Some loyal"
  by (simp_all add: priced_request_def customerData_def shop_db_fields)

text \<open>
  The specification's example: 1999.99 + 2 * 29.99 is the double 2059.97, the discount
  the double 102.99849999999999, the tax 195.69715, the total 2152.66865.
\<close>

lemma spec_example_doubles:
  "double_subtotal spec_items = 4529921935739453 / 2199023255552"
  "double_discount (4529921935739453 / 2199023255552) (Some loyal)
     = 7247875097183125 / 70368744177664"
  "double_tax (4529921935739453 / 2199023255552) (7247875097183125 / 70368744177664)
     = 6885481342323969 / 35184372088832"
  "double_total (4529921935739453 / 2199023255552) (7247875097183125 / 70368744177664)
     (6885481342323969 / 35184372088832) = 4733768422847729 / 2199023255552"
  by (simp_all add: double_subtotal_def double_discount_def double_tax_def double_total_def
      spec_items_def loyal_def number_eval)

lemma spec_example_texts:
  "number_text (4529921935739453 / 2199023255552) = 205997 / 100"
  "number_text (7247875097183125 / 70368744177664) = 10299849999999999 / 100000000000000"
  "number_text (6885481342323969 / 35184372088832) = 19569715 / 100000"
  "number_text (4733768422847729 / 2199023255552) = 215266865 / 100000"
  by (simp_all add: number_eval)

lemma spec_example_stored:
  "numeric_scale_2 (number_text (4529921935739453 / 2199023255552)) = 205997 / 100"
  "numeric_scale_2 (number_text (7247875097183125 / 70368744177664)) = 103"
  "numeric_scale_2 (number_text (6885481342323969 / 35184372088832)) = 19570 / 100"
  "numeric_scale_2 (number_text (4733768422847729 / 2199023255552)) = 215267 / 100"
  by (simp_all add: spec_example_texts numeric_scale_2_def floor_rat_numeral_div)

text \<open>
  One item at 1.10 for the customer at 5 percent: the discount is the double
  0.05500000000000001, the tax 0.10450000000000002, the total 1.1495000000000002.
\<close>

lemma dime_doubles:
  "double_subtotal [priced_item (11 / 10)] = 2476979795053773 / 2251799813685248"
  "double_discount (2476979795053773 / 2251799813685248) (Some loyal)
     = 3963167672086037 / 72057594037927936"
  "double_tax (2476979795053773 / 2251799813685248) (3963167672086037 / 72057594037927936)
     = 7530018576963471 / 72057594037927936"
  "double_total (2476979795053773 / 2251799813685248) (3963167672086037 / 72057594037927936)
     (7530018576963471 / 72057594037927936) = 2588443885831193 / 2251799813685248"
  by (simp_all add: double_subtotal_def double_discount_def double_tax_def double_total_def
      priced_item_def loyal_def number_eval)

lemma dime_texts:
  "number_text (2476979795053773 / 2251799813685248) = 11 / 10"
  "number_text (3963167672086037 / 72057594037927936) = 5500000000000001 / 100000000000000000"
  "number_text (7530018576963471 / 72057594037927936) = 10450000000000002 / 100000000000000000"
  "number_text (2588443885831193 / 2251799813685248) = 11495000000000002 / 10000000000000000"
  by (simp_all add: number_eval)

lemma dime_stored:
  "numeric_scale_2 (number_text (2476979795053773 / 2251799813685248)) = 110 / 100"
  "numeric_scale_2 (number_text (3963167672086037 / 72057594037927936)) = 6 / 100"
  "numeric_scale_2 (number_text (7530018576963471 / 72057594037927936)) = 10 / 100"
  "numeric_scale_2 (number_text (2588443885831193 / 2251799813685248)) = 115 / 100"
  by (simp_all add: dime_texts numeric_scale_2_def floor_rat_numeral_div)

text \<open>
  One item at 0.70 for the customer at 5 percent: the discount is the double
  0.034999999999999996, below the exact 0.035.
\<close>

lemma seventy_doubles:
  "double_subtotal [priced_item (7 / 10)] = 3152519739159347 / 4503599627370496"
  "double_discount (3152519739159347 / 4503599627370496) (Some loyal)
     = 5044031582654955 / 144115188075855872"
  by (simp_all add: double_subtotal_def double_discount_def priced_item_def loyal_def
      number_eval)

lemma seventy_texts:
  "number_text (5044031582654955 / 144115188075855872)
     = 34999999999999996 / 1000000000000000000"
  by (simp add: number_eval)

lemma seventy_stored:
  "numeric_scale_2 (number_text (5044031582654955 / 144115188075855872)) = 3 / 100"
  by (simp add: seventy_texts numeric_scale_2_def floor_rat_numeral_div)

lemma seventy_spec:
  "round_half_even_2dp (spec_discount (spec_subtotal [priced_item (7 / 10)]) (Some loyal))
     = 4 / 100"
  by (simp add: spec_subtotal_def spec_discount_def priced_item_def loyal_def
      round_half_even_2dp_def round_half_even_def Let_def floor_rat_numeral_div)

section \<open>Effects of a stored sale\<close>

lemma products_foldl_items:
  "products d1 = products d2 \<Longrightarrow>
   products (foldl (insert_transaction_item q t1) d1 its)
     = products (foldl (insert_transaction_item q t2) d2 its)"
proof (induction its arbitrary: d1 d2)
  case Nil
  then show ?case by simp
next
  case (Cons a its)
  have "products (insert_transaction_item q t1 d1 a) = products (insert_transaction_item q t2 d2 a)"
    using Cons.prems by (simp add: products_insert_item split: option.splits)
  then show ?case using Cons.IH by simp
qed

lemma insert_transaction_customers:
  assumes "insert_transaction q e payload d = Inr (txn, d1)" and "status payload = completed"
  shows "customers d1 =
          (case t_customer_id payload of
             None \<Rightarrow> customers d
           | Some cid \<Rightarrow>
               (case customers d cid of
                  None \<Rightarrow> customers d
                | Some c \<Rightarrow> (customers d)(cid \<mapsto>
                    c\<lparr>total_purchases := q (total_purchases c + total_amount txn),
                      purchase_count := purchase_count c + 1,
                      c_updated_at := now e\<rparr>)))"
  using assms
  by (auto simp add: insert_transaction_def Let_def stored_transaction_def
      update_customer_totals_def customer_eligibility_trigger_def fire_row_trigger_def
      split: if_splits option.splits)

section \<open>Sample numbers and sales of cables\<close>

lemma string_of_nat_numeral:
  "string_of_nat (numeral k) =
     (if (numeral k :: nat) < 10 then [digit_char (numeral k)]
      else string_of_nat (numeral k div 10) @ [digit_char (numeral k mod 10)])"
  by (rule string_of_nat.simps)

lemma string_of_nat_small:
  "string_of_nat 0 = ''0''" "string_of_nat (Suc 0) = ''1''"
  by (simp_all add: string_of_nat.simps [of 0] string_of_nat.simps [of "Suc 0"] digit_char_def)

lemma sample_numbers:
  "transactionNumber (now ex_env) (random_txn ex_env) = ''TXN-20240115-05000''"
  "transactionNumber (now later_env) (random_txn later_env) = ''TXN-20240115-02500''"
  "receiptNumber (now ex_env) (random_rcp ex_env) = ''RCP-20240115-02500''"
  "receiptNumber (now later_env) (random_rcp later_env) = ''RCP-20240115-07500''"
  by (simp_all add: transactionNumber_def receiptNumber_def date_digits_def random_digits_def
      padStart_def getFullYear_def getMonth_def getDate_def ex_env_def later_env_def
      at_time_def ex_day_def string_of_nat_numeral string_of_nat_small digit_char_def
      floor_rat_numeral_div)

lemma cable_request_fields:
  "items (cable_request c n) = Some [cables n]"
  "customer_id (cable_request c n) = c"
  "valid_payment_method (payment_method (cable_request c n))"
  by (simp_all add: cable_request_def valid_payment_method_def)

lemma cable_sale_succeeds:
  assumes "n \<le> 10" and "c = None \<or> c = Some 21 \<or> c = Some 22"
  shows "\<exists>reply d'. createSale q e u (cable_request c n) shop_db = (Inr reply, d')"
  using assms
  by (intro shop_sale_succeeds [where its = "[cables n]"])
    (simp_all add: cable_request_fields cables_def shop_db_fields cable_def)

lemma createSale_effects:
  assumes "createSale q e u req d = (Inr reply, d')" and "items req = Some its"
  shows "products d' = products (foldl (insert_transaction_item q (transaction reply)) d its)"
    and "customers d' =
          (case customer_id req of
             None \<Rightarrow> customers d
           | Some cid \<Rightarrow>
               (case customers d cid of
                  None \<Rightarrow> customers d
                | Some c \<Rightarrow> (customers d)(cid \<mapsto>
                    c\<lparr>total_purchases := q (total_purchases c + total_amount (transaction reply)),
                      purchase_count := purchase_count c + 1,
                      c_updated_at := now e\<rparr>)))"
proof -
  from createSale_Inr [OF assms(1)] assms(2) obtain d1 where
    ins: "insert_transaction q e (sale_payload e u req d its) d = Inr (transaction reply, d1)"
    and d': "d' = insert_receipt
                    (receipt_of u (transaction reply)
                       (customerReceiptData e req d its (sale_payload e u req d its)))
                    (foldl (insert_transaction_item q (transaction reply)) d1 its)"
    by auto
  show "products d' = products (foldl (insert_transaction_item q (transaction reply)) d its)"
    using insert_transaction_Inr(3) [OF ins]
    by (simp add: d' products_insert_receipt products_foldl_items)
  have "customers d' = customers d1"
    by (simp add: d' customers_insert_receipt customers_foldl_items)
  then show "customers d' =
          (case customer_id req of
             None \<Rightarrow> customers d
           | Some cid \<Rightarrow>
               (case customers d cid of
                  None \<Rightarrow> customers d
                | Some c \<Rightarrow> (customers d)(cid \<mapsto>
                    c\<lparr>total_purchases := q (total_purchases c + total_amount (transaction reply)),
                      purchase_count := purchase_count c + 1,
                      c_updated_at := now e\<rparr>)))"
    using insert_transaction_customers [OF ins] by (simp add: sale_payload_def Let_def)
qed

lemma cable_sale_stock:
  assumes "createSale q e u (cable_request c n) shop_db = (Inr reply, d')"
  shows "products d' 12 = Some (cable\<lparr>quantity_in_stock := 10 - n\<rparr>)"
  using createSale_effects(1) [OF assms cable_request_fields(1)]
  by (simp add: products_insert_item cables_def shop_db_fields cable_def)

lemma cable_sale_row:
  assumes "createSale q e u (cable_request c n) shop_db = (Inr reply, d')"
  shows "transactions d' = [transaction reply]"
    and "t_id (transaction reply) = fresh_id e"
    and "cashier_id (transaction reply) = user_id u"
    and "status (transaction reply) = completed"
    and "transaction_number (transaction reply) = transactionNumber (now e) (random_txn e)"
  using createSale_row [OF assms cable_request_fields(1)]
  by (simp_all add: shop_db_fields stored_transaction_def sale_payload_def Let_def)

section \<open>Cancellation\<close>

lemma return_stock_id: "return_stock d item = d"
  by (simp add: return_stock_def update_quantity_in_stock_def)

lemma foldl_return_stock: "foldl return_stock d its = d"
  by (induction its) (simp_all add: return_stock_id)

lemma find_mark_cancelled:
  "find (\<lambda>t. t_id t = tid) (map (mark_cancelled ts tid) rows)
     = map_option (mark_cancelled ts tid) (find (\<lambda>t. t_id t = tid) rows)"
  by (induction rows) (simp_all add: mark_cancelled_def)

lemma cancelSale_found:
  assumes "find (\<lambda>t. t_id t = tid) (transactions d) = Some txn"
    and "cashier_id txn = user_id u \<or> user_role u = ''admin''"
  shows "cancelSale e u tid d =
     (Inr (txn\<lparr>status := cancelled, t_updated_at := now e\<rparr>),
      d\<lparr>transactions := map (mark_cancelled (now e) tid) (transactions d),
        audit_logs := audit_logs d @
          [\<lparr>al_user_id = user_id u, al_action = ''CANCEL_TRANSACTION'',
            entity_type = ''transactions'', entity_id = tid\<rparr>]\<rparr>)"
proof -
  from assms(1) have "t_id txn = tid" by (auto dest: find_Some_iff [THEN iffD1])
  then have "mark_cancelled (now e) tid txn = txn\<lparr>status := cancelled, t_updated_at := now e\<rparr>"
    by (simp add: mark_cancelled_def)
  with assms show ?thesis
    by (auto simp add: cancelSale_def Let_def foldl_return_stock find_mark_cancelled)
qed

lemma cancelSale_missing:
  assumes "find (\<lambda>t. t_id t = tid) (transactions d) = None"
  shows "cancelSale e u tid d = (Inl InternalTypeError, d)"
  using assms by (simp add: cancelSale_def)

lemma cancelSale_products: "products (snd (cancelSale e u tid d)) = products d"
  by (simp add: cancelSale_def Let_def foldl_return_stock split: option.splits)

section \<open>Sales after a sale\<close>

lemma createSale_customers_None:
  assumes "createSale q e u req d = (Inr reply, d')"
  shows "customers d' cid = None \<longleftrightarrow> customers d cid = None"
proof -
  from createSale_Inr [OF assms] obtain its where "items req = Some its" by blast
  from createSale_effects(2) [OF assms this] show ?thesis
    by (auto split: option.splits)
qed

lemma insert_transaction_duplicate:
  assumes "\<exists>t \<in> set (transactions d). transaction_number t = transaction_number payload"
  shows "insert_transaction q e payload d = Inl (UniqueViolation ''transaction_number'')"
  using assms by (simp add: insert_transaction_def)

lemma sold_db_sale:
  "\<exists>reply. createSale round_half_even_2dp ex_env cashier7 (cable_request None 2) shop_db
             = (Inr reply, sold_db)"
proof -
  from cable_sale_succeeds [where n = 2 and c = None and q = round_half_even_2dp and e = ex_env and u = cashier7] obtain reply d' where
    "createSale round_half_even_2dp ex_env cashier7 (cable_request None 2) shop_db = (Inr reply, d')"
    by auto
  then show ?thesis by (auto simp add: sold_db_def)
qed

lemma accrued_db_sale:
  "\<exists>reply. createSale round_half_even_2dp ex_env cashier7 (cable_request (Some 22) 1) shop_db
             = (Inr reply, accrued_db)"
proof -
  from cable_sale_succeeds [where n = 1 and c = "Some 22" and q = round_half_even_2dp and e = ex_env and u = cashier7] obtain reply d' where
    "createSale round_half_even_2dp ex_env cashier7 (cable_request (Some 22) 1) shop_db = (Inr reply, d')"
    by auto
  then show ?thesis by (auto simp add: accrued_db_def)
qed

lemma next_cable_sale_succeeds:
  assumes first: "createSale q ex_env u (cable_request c n) shop_db = (Inr r1, d1)"
    and "m \<le> 10 - n" and "c' = None \<or> c' = Some 21 \<or> c' = Some 22"
  shows "\<exists>r2 d2. createSale q later_env u' (cable_request c' m) d1 = (Inr r2, d2)"
proof -
  have stock: "verify_stock d1 [cables m] = None"
    using cable_sale_stock [OF first] assms(2) by (simp add: cables_def)
  have "transaction_number (transaction r1) \<noteq> transactionNumber (now later_env) (random_txn later_env)"
    using cable_sale_row(5) [OF first] by (simp add: sample_numbers)
  then have fresh: "\<forall>t \<in> set (transactions d1).
      transaction_number t \<noteq> transaction_number (sale_payload later_env u' (cable_request c' m) d1 [cables m])"
    using cable_sale_row(1) [OF first] by (simp add: sale_payload_def Let_def)
  have cust: "case t_customer_id (sale_payload later_env u' (cable_request c' m) d1 [cables m]) of
      None \<Rightarrow> True | Some k \<Rightarrow> customers d1 k \<noteq> None"
    using assms(3) createSale_customers_None [OF first]
    by (auto simp add: sale_payload_def Let_def cable_request_fields shop_db_fields)
  have pay: "valid_payment_method (t_payment_method (sale_payload later_env u' (cable_request c' m) d1 [cables m]))"
    by (simp add: sale_payload_def Let_def cable_request_fields)
  from insert_transaction_succeeds [OF fresh cust pay] obtain d1' where
    "insert_transaction q later_env (sale_payload later_env u' (cable_request c' m) d1 [cables m]) d1
      = Inr (stored_transaction q later_env (sale_payload later_env u' (cable_request c' m) d1 [cables m]), d1')"
    by blast
  from createSale_succeeds [OF cable_request_fields(1) _ stock this] show ?thesis by blast
qed

lemma createSale_inactive_product:
  "\<exists>reply d'. createSale q e u retired_request shop_db = (Inr reply, d')"
  by (rule shop_sale_succeeds [where its = "[\<lparr>product_id = 13, quantity = 1, unit_price = 50\<rparr>]"])
    (simp_all add: retired_request_def shop_db_fields retired_def valid_payment_method_def)

section \<open>The sample cancellation\<close>

lemma sold_db_rows:
  "\<exists>row. transactions sold_db = [row] \<and> t_id row = 100 \<and> cashier_id row = 7
      \<and> status row = completed"
proof -
  from sold_db_sale obtain r1 where
    first: "createSale round_half_even_2dp ex_env cashier7 (cable_request None 2) shop_db
              = (Inr r1, sold_db)" ..
  from cable_sale_row [OF first] show ?thesis
    by (simp add: ex_env_def cashier7_def)
qed

lemma sold_db_stock: "products sold_db 12 = Some (cable\<lparr>quantity_in_stock := 8\<rparr>)"
proof -
  from sold_db_sale obtain r1 where
    first: "createSale round_half_even_2dp ex_env cashier7 (cable_request None 2) shop_db
              = (Inr r1, sold_db)" ..
  from cable_sale_stock [OF first] show ?thesis by simp
qed

lemma cancel_sold_db:
  "\<exists>row. cancelSale later_env cashier7 100 sold_db = (Inr row, cancelled_db)
      \<and> t_id row = 100 \<and> cashier_id row = 7 \<and> status row = cancelled
      \<and> transactions cancelled_db = [row]"
proof -
  from sold_db_rows obtain row where
    rows: "transactions sold_db = [row]" and row: "t_id row = 100" "cashier_id row = 7"
    by blast
  have found: "find (\<lambda>t. t_id t = 100) (transactions sold_db) = Some row"
    by (simp add: rows row)
  have own: "cashier_id row = user_id cashier7 \<or> user_role cashier7 = ''admin''"
    by (simp add: row cashier7_def)
  from cancelSale_found [OF found own, of later_env]
  show ?thesis
    by (simp add: cancelled_db_def rows row mark_cancelled_def)
qed

section \<open>The eligibility trigger\<close>

lemma check_customer_eligibility_sets:
  "purchase_count new \<ge> 10 \<or> total_purchases new \<ge> 1000 \<Longrightarrow>
   is_eligible_for_discount (check_customer_eligibility new)
   \<and> discount_percentage (check_customer_eligibility new) = 5"
  by (simp add: check_customer_eligibility_def)

lemma check_customer_eligibility_keeps:
  "\<not> (purchase_count new \<ge> 10 \<or> total_purchases new \<ge> 1000) \<Longrightarrow>
   check_customer_eligibility new = new"
  by (simp add: check_customer_eligibility_def)

lemma check_customer_eligibility_never_clears:
  "is_eligible_for_discount new \<Longrightarrow> is_eligible_for_discount (check_customer_eligibility new)"
  by (simp add: check_customer_eligibility_def)

lemma customer_eligibility_trigger_id: "customer_eligibility_trigger new = new"
  by (simp add: customer_eligibility_trigger_def fire_row_trigger_def)

section \<open>The daily report\<close>

lemma date_less_irrefl: "\<not> date_less a a"
  by (simp add: date_less_def)

lemma date_less_asym: "date_less a b \<Longrightarrow> \<not> date_less b a"
  by (auto simp add: date_less_def)

lemma report_filter_iff:
  "report_filter d t \<longleftrightarrow>
     status t = completed \<and> ts_date (t_created_at t) = d
     \<and> ts_micros (t_created_at t) < 86399000000"
  by (auto simp add: report_filter_def ts_ge_def ts_less_def at_time_def date_less_irrefl
      dest: date_less_asym)

lemma daily_payload_upsert:
  "daily_payload q u dt (upsert_daily_report e p d) = daily_payload q u dt d"
proof -
  have "transactions (upsert_daily_report e p d) = transactions d"
    and "transaction_items (upsert_daily_report e p d) = transaction_items d"
    and "products (upsert_daily_report e p d) = products d"
    by (simp_all add: upsert_daily_report_def)
  moreover have "\<And>d1 d2 m ts. transaction_items d1 = transaction_items d2 \<Longrightarrow>
      products d1 = products d2 \<Longrightarrow> productMap d1 m ts = productMap d2 m ts"
  proof -
    fix d1 d2 :: db and m ts
    assume a: "transaction_items d1 = transaction_items d2" "products d1 = products d2"
    then have "\<And>t. items_of d1 t = items_of d2 t" by (simp add: items_of_def)
    then show "productMap d1 m ts = productMap d2 m ts"
      by (induction ts arbitrary: m) (simp_all split: option.splits)
  qed
  ultimately have "productMap (upsert_daily_report e p d) = productMap d"
    by (intro ext) blast
  then show ?thesis
    by (simp add: daily_payload_def \<open>transactions (upsert_daily_report e p d) = transactions d\<close>)
qed

lemma upsert_has_row:
  "\<exists>r \<in> set (daily_reports (upsert_daily_report e p d)).
     report_date (dr_payload r) = report_date p"
proof (cases "\<exists>r \<in> set (daily_reports d). report_date (dr_payload r) = report_date p")
  case True
  then obtain r where r: "r \<in> set (daily_reports d)" "report_date (dr_payload r) = report_date p"
    by blast
  then have "overwrite_report p r \<in> set (daily_reports (upsert_daily_report e p d))"
    using True by (simp add: upsert_daily_report_def)
  moreover have "report_date (dr_payload (overwrite_report p r)) = report_date p"
    using r by (simp add: overwrite_report_def)
  ultimately show ?thesis by blast
next
  case False
  then show ?thesis by (simp add: upsert_daily_report_def)
qed

lemma upsert_rows_payload:
  "r \<in> set (daily_reports (upsert_daily_report e p d)) \<Longrightarrow>
   report_date (dr_payload r) = report_date p \<Longrightarrow> dr_payload r = p"
  by (auto simp add: upsert_daily_report_def overwrite_report_def split: if_splits)

lemma upsert_idem:
  "upsert_daily_report e2 p (upsert_daily_report e1 p d) = upsert_daily_report e1 p d"
proof -
  let ?d1 = "upsert_daily_report e1 p d"
  have "map (overwrite_report p) (daily_reports ?d1) = daily_reports ?d1"
  proof (rule map_idI)
    fix r assume "r \<in> set (daily_reports ?d1)"
    then show "overwrite_report p r = r"
      using upsert_rows_payload [of r e1 p d] by (cases r) (auto simp add: overwrite_report_def)
  qed
  then show ?thesis
    using upsert_has_row [of e1 p d]
    by (subst upsert_daily_report_def) simp
qed

lemma daily_payload_date:
  "daily_payload q u dt d = Some p \<Longrightarrow> report_date p = dt"
  by (auto simp add: daily_payload_def Let_def split: option.splits)

lemma daily_payload_fields:
  assumes "daily_payload q u dt d = Some p"
  shows "dr_total_transactions p = length (filter (report_filter dt) (transactions d))"
    and "generated_by p = Some (user_id u)"
  using assms by (auto simp add: daily_payload_def Let_def split: option.splits)

lemma generateDaily_again:
  "generateDaily q e2 u (Some dt) (snd (generateDaily q e1 u (Some dt) d))
     = generateDaily q e1 u (Some dt) d"
proof (cases "daily_payload q u dt d")
  case None
  then show ?thesis by (simp add: generateDaily_def)
next
  case (Some p)
  have 1: "snd (generateDaily q e1 u (Some dt) d) = upsert_daily_report e1 p d"
    by (simp add: generateDaily_def Some Let_def split: option.splits)
  have 2: "generateDaily q e2 u (Some dt) (upsert_daily_report e1 p d)
      = generateDaily q e1 u (Some dt) d"
    by (simp add: generateDaily_def Some daily_payload_upsert upsert_idem Let_def)
  show ?thesis unfolding 1 by (rule 2)
qed

lemma generateDaily_rows:
  assumes "\<exists>r \<in> set (daily_reports d). report_date (dr_payload r) = dt"
  shows "length (daily_reports (snd (generateDaily q e u (Some dt) d))) = length (daily_reports d)"
proof (cases "daily_payload q u dt d")
  case None
  then show ?thesis by (simp add: generateDaily_def)
next
  case (Some p)
  then have "report_date p = dt" by (rule daily_payload_date)
  with assms show ?thesis
    by (simp add: generateDaily_def Some Let_def upsert_daily_report_def split: option.splits)
qed

lemma generateDaily_counts:
  assumes "generateDaily q e u (Some dt) d = (Inr report, d')"
  shows "dr_total_transactions (dr_payload report)
     = length (filter (report_filter dt) (transactions d))"
proof -
  from assms obtain p where p: "daily_payload q u dt d = Some p"
    by (auto simp add: generateDaily_def Let_def split: option.splits)
  then have dt: "report_date p = dt" by (rule daily_payload_date)
  from assms p have "report \<in> set (daily_reports (upsert_daily_report e p d))"
    and "report_date (dr_payload report) = dt"
    by (auto simp add: generateDaily_def Let_def split: option.splits
        dest: find_Some_iff [THEN iffD1] simp: in_set_conv_nth)
  then have "dr_payload report = p"
    using upsert_rows_payload [of report e p d] dt by simp
  with daily_payload_fields(1) [OF p] show ?thesis by simp
qed

lemma generateDaily_succeeds:
  assumes "daily_payload q u dt d \<noteq> None"
  shows "\<not> isl (fst (generateDaily q e u (Some dt) d))"
proof -
  from assms obtain p where p: "daily_payload q u dt d = Some p" by auto
  then have dt: "report_date p = dt" by (rule daily_payload_date)
  from upsert_has_row [of e p d] dt
  have "find (\<lambda>r. report_date (dr_payload r) = dt) (daily_reports (upsert_daily_report e p d)) \<noteq> None"
    by (auto simp add: find_None_iff)
  then show ?thesis
    by (auto simp add: generateDaily_def p Let_def split: option.splits)
qed

lemma daily_payload_total_sales:
  assumes "daily_payload q u dt d = Some p"
  shows "dr_total_sales p
     = q (number_text (sum_total_amount (filter (report_filter dt) (transactions d))))"
  using assms by (auto simp add: daily_payload_def Let_def split: option.splits)

lemma generateDaily_Inr:
  assumes "generateDaily q e u (Some dt) d = (Inr report, d')"
  shows "daily_payload q u dt d = Some (dr_payload report)"
    and "d' = upsert_daily_report e (dr_payload report) d"
proof -
  from assms obtain p where p: "daily_payload q u dt d = Some p"
    by (auto simp add: generateDaily_def Let_def split: option.splits)
  then have dt: "report_date p = dt" by (rule daily_payload_date)
  from assms p have in_rows: "report \<in> set (daily_reports (upsert_daily_report e p d))"
    and "report_date (dr_payload report) = dt"
    and d': "d' = upsert_daily_report e p d"
    by (auto simp add: generateDaily_def Let_def split: option.splits
        dest: find_Some_iff [THEN iffD1] simp: in_set_conv_nth)
  then have "dr_payload report = p"
    using upsert_rows_payload [of report e p d] dt by simp
  with p d' show "daily_payload q u dt d = Some (dr_payload report)"
    and "d' = upsert_daily_report e (dr_payload report) d" by simp_all
qed

lemma not_isl_Inr: "\<not> isl (fst x) \<Longrightarrow> \<exists>r. x = (Inr r, snd x)"
  by (cases x; cases "fst x") auto

lemma sample_rows:
  "transactions late_db = [late_sale]"
  "transactions noon_db = [noon_sale]"
  by (simp_all add: late_db_def noon_db_def)

lemma late_sale_filtered: "\<not> report_filter ex_day late_sale"
  by (simp add: report_filter_iff late_sale_def at_time_def)

lemma noon_sale_counted: "report_filter ex_day noon_sale"
  by (simp add: report_filter_iff noon_sale_def late_sale_def at_time_def)

lemma sample_payloads:
  "daily_payload q u ex_day late_db \<noteq> None"
  "daily_payload q u ex_day noon_db \<noteq> None"
  by (simp_all add: daily_payload_def Let_def late_db_def noon_db_def shop_db_def empty_db_def
      late_sale_filtered noon_sale_counted items_of_def)

lemma daily_payload_user:
  "daily_payload q u' dt d = map_option (\<lambda>p. p\<lparr>generated_by := Some (user_id u')\<rparr>) (daily_payload q u dt d)"
  by (simp add: daily_payload_def Let_def split: option.splits)

lemma find_overwrite_report:
  "report_date p = dt \<Longrightarrow>
   find (\<lambda>r. report_date (dr_payload r) = dt) (map (overwrite_report p) rows)
     = map_option (overwrite_report p) (find (\<lambda>r. report_date (dr_payload r) = dt) rows)"
  by (induction rows) (auto simp add: overwrite_report_def)

lemma generateDaily_other_user:
  "map_sum id (\<lambda>r. r\<lparr>dr_payload := (dr_payload r)\<lparr>generated_by := g\<rparr>\<rparr>)
       (fst (generateDaily q e2 u' (Some dt) (snd (generateDaily q e1 u (Some dt) d))))
     = map_sum id (\<lambda>r. r\<lparr>dr_payload := (dr_payload r)\<lparr>generated_by := g\<rparr>\<rparr>)
         (fst (generateDaily q e1 u (Some dt) d))"
proof (cases "daily_payload q u dt d")
  case None
  then have "daily_payload q u' dt d = None" by (simp add: daily_payload_user [of q u' dt d u])
  with None show ?thesis by (simp add: generateDaily_def)
next
  case (Some p)
  let ?P = "\<lambda>r. report_date (dr_payload r) = dt"
  let ?p' = "p\<lparr>generated_by := Some (user_id u')\<rparr>"
  let ?d1 = "upsert_daily_report e1 p d"
  have dt: "report_date p = dt" using Some by (rule daily_payload_date)
  have d1: "snd (generateDaily q e1 u (Some dt) d) = ?d1"
    by (simp add: generateDaily_def Some Let_def split: option.splits)
  have p': "daily_payload q u' dt ?d1 = Some ?p'"
    by (simp add: daily_payload_upsert daily_payload_user [of q u' dt d u] Some)
  from upsert_has_row [of e1 p d] dt obtain r1 where
    r1: "find ?P (daily_reports ?d1) = Some r1"
    by (cases "find ?P (daily_reports ?d1)") (auto simp add: find_None_iff)
  then have "r1 \<in> set (daily_reports ?d1)" and "report_date (dr_payload r1) = dt"
    by (auto dest: find_Some_iff [THEN iffD1] simp: in_set_conv_nth)
  then have pay1: "dr_payload r1 = p"
    using upsert_rows_payload [of r1 e1 p d] dt by simp
  have has: "\<exists>r \<in> set (daily_reports ?d1). report_date (dr_payload r) = report_date ?p'"
    using upsert_has_row [of e1 p d] by simp
  have rows2: "daily_reports (upsert_daily_report e2 ?p' ?d1)
      = map (overwrite_report ?p') (daily_reports ?d1)"
    using has by (subst upsert_daily_report_def) simp
  have "find ?P (daily_reports (upsert_daily_report e2 ?p' ?d1)) = Some (overwrite_report ?p' r1)"
    using dt by (simp add: rows2 find_overwrite_report r1)
  moreover have "overwrite_report ?p' r1 = r1\<lparr>dr_payload := ?p'\<rparr>"
    using pay1 dt by (simp add: overwrite_report_def)
  ultimately have g2: "fst (generateDaily q e2 u' (Some dt) ?d1) = Inr (r1\<lparr>dr_payload := ?p'\<rparr>)"
    by (simp add: generateDaily_def p' Let_def)
  have g1: "fst (generateDaily q e1 u (Some dt) d) = Inr r1"
    by (simp add: generateDaily_def Some Let_def r1)
  show ?thesis
    unfolding d1 g2 g1 using pay1 by (cases r1) simp
qed

section \<open>Stored totals of a sale\<close>

text \<open>
  C1 (as amended).  A sale that createSale stores has its row in \<open>transactions\<close>, and the
  four amounts of the row come from doubles.  The subtotal is the sum, from 0 and from the
  left, of quantity times unit price, each product and each sum rounded to the nearest
  double; the discount is subtotal times (pct / 100) when the customer is flagged
  eligible, else 0 (also without a customer); the tax is (subtotal minus discount) times
  0.1; the total is (subtotal minus discount) plus tax.  None of them is rounded to cents
  on the way, and no per-line amount is.  Each of the four doubles is sent as its shortest
  decimal text, and the DECIMAL(10, 2) column rounds that text to 2 places, half away from
  zero, once per stored field.  So the stored total is the rounded double total, not the
  stored subtotal minus the stored discount plus the stored tax.
\<close>

theorem createSale_stored_totals:
  assumes "createSale numeric_scale_2 e u req d = (Inr reply, d')" and "items req = Some its"
  shows "transaction reply \<in> set (transactions d')
     \<and> subtotal (transaction reply) = numeric_scale_2 (number_text (double_subtotal its))
     \<and> discount_amount (transaction reply)
         = numeric_scale_2 (number_text
             (double_discount (double_subtotal its) (customerData d (customer_id req))))
     \<and> tax (transaction reply)
         = numeric_scale_2 (number_text
             (double_tax (double_subtotal its)
                (double_discount (double_subtotal its) (customerData d (customer_id req)))))
     \<and> total_amount (transaction reply)
         = numeric_scale_2 (number_text
             (double_total (double_subtotal its)
                (double_discount (double_subtotal its) (customerData d (customer_id req)))
                (double_tax (double_subtotal its)
                   (double_discount (double_subtotal its)
                      (customerData d (customer_id req))))))"
  using createSale_row [OF assms] by (simp add: stored_totals)

text \<open>
  The specification's example, 1 at 1999.99 and 2 at 29.99 for an eligible customer at 5
  percent, is stored as subtotal 2059.97, discount 103.00, tax 195.70, total 2152.67.  One
  item at 1.10 for the same customer is stored as subtotal 1.10, discount 0.06, tax 0.10
  and total 1.15, which is not 1.10 - 0.06 + 0.10.
\<close>

theorem createSale_stored_totals_witness:
  "(\<exists>reply d'. createSale numeric_scale_2 ex_env cashier7 spec_request shop_db = (Inr reply, d')
       \<and> transaction reply \<in> set (transactions d')
       \<and> subtotal (transaction reply) = 205997 / 100
       \<and> discount_amount (transaction reply) = 103
       \<and> tax (transaction reply) = 19570 / 100
       \<and> total_amount (transaction reply) = 215267 / 100)
   \<and> (\<exists>reply d'. createSale numeric_scale_2 ex_env cashier7 (priced_request (11 / 10)) shop_db
         = (Inr reply, d')
       \<and> subtotal (transaction reply) = 110 / 100
       \<and> discount_amount (transaction reply) = 6 / 100
       \<and> tax (transaction reply) = 10 / 100
       \<and> total_amount (transaction reply) = 115 / 100
       \<and> total_amount (transaction reply)
           \<noteq> subtotal (transaction reply) - discount_amount (transaction reply)
               + tax (transaction reply))"
proof -
  from spec_request_succeeds obtain reply d' where
    ok: "createSale numeric_scale_2 ex_env cashier7 spec_request shop_db = (Inr reply, d')"
    by blast
  from createSale_stored_totals [OF ok spec_request_values(1)]
  have "transaction reply \<in> set (transactions d')
     \<and> subtotal (transaction reply) = 205997 / 100
     \<and> discount_amount (transaction reply) = 103
     \<and> tax (transaction reply) = 19570 / 100
     \<and> total_amount (transaction reply) = 215267 / 100"
    by (simp add: spec_request_values spec_example_doubles spec_example_stored)
  with ok have first: "\<exists>reply d'.
       createSale numeric_scale_2 ex_env cashier7 spec_request shop_db = (Inr reply, d')
     \<and> transaction reply \<in> set (transactions d')
     \<and> subtotal (transaction reply) = 205997 / 100
     \<and> discount_amount (transaction reply) = 103
     \<and> tax (transaction reply) = 19570 / 100
     \<and> total_amount (transaction reply) = 215267 / 100"
    by blast
  from priced_request_succeeds obtain reply2 d2 where
    ok2: "createSale numeric_scale_2 ex_env cashier7 (priced_request (11 / 10)) shop_db
          = (Inr reply2, d2)"
    by blast
  from createSale_stored_totals [OF ok2 priced_request_values(1)]
  have "subtotal (transaction reply2) = 110 / 100
     \<and> discount_amount (transaction reply2) = 6 / 100
     \<and> tax (transaction reply2) = 10 / 100
     \<and> total_amount (transaction reply2) = 115 / 100"
    by (simp add: priced_request_values dime_doubles dime_stored)
  then have "subtotal (transaction reply2) = 110 / 100
     \<and> discount_amount (transaction reply2) = 6 / 100
     \<and> tax (transaction reply2) = 10 / 100
     \<and> total_amount (transaction reply2) = 115 / 100
     \<and> total_amount (transaction reply2)
         \<noteq> subtotal (transaction reply2) - discount_amount (transaction reply2)
             + tax (transaction reply2)"
    by simp
  with ok2 have second: "\<exists>reply d'.
       createSale numeric_scale_2 ex_env cashier7 (priced_request (11 / 10)) shop_db
         = (Inr reply, d')
     \<and> subtotal (transaction reply) = 110 / 100
     \<and> discount_amount (transaction reply) = 6 / 100
     \<and> tax (transaction reply) = 10 / 100
     \<and> total_amount (transaction reply) = 115 / 100
     \<and> total_amount (transaction reply)
         \<noteq> subtotal (transaction reply) - discount_amount (transaction reply)
             + tax (transaction reply)"
    by blast
  from first second show ?thesis by blast
qed

text \<open>
  C1 as stated fails.  On its own example the stored discount is 103.00 and the stored
  total 2152.67, not 102.99 and 2152.68.  Its rule fails too: for one item at 0.70 and an
  eligible customer at 5 percent the stored discount is 0.03, where subtotal times
  pct / 100 is 0.035 and rounds to 0.04.
\<close>

theorem createSale_spec_example_counterexample:
  "discount_amount (transaction (projr (fst
      (createSale numeric_scale_2 ex_env cashier7 spec_request shop_db)))) = 103
   \<and> discount_amount (transaction (projr (fst
      (createSale numeric_scale_2 ex_env cashier7 spec_request shop_db)))) \<noteq> 10299 / 100
   \<and> total_amount (transaction (projr (fst
      (createSale numeric_scale_2 ex_env cashier7 spec_request shop_db)))) = 215267 / 100
   \<and> total_amount (transaction (projr (fst
      (createSale numeric_scale_2 ex_env cashier7 spec_request shop_db)))) \<noteq> 215268 / 100
   \<and> discount_amount (transaction (projr (fst
      (createSale numeric_scale_2 ex_env cashier7 (priced_request (7 / 10)) shop_db))))
       = 3 / 100
   \<and> round_half_even_2dp
       (spec_discount (spec_subtotal [priced_item (7 / 10)]) (Some loyal)) = 4 / 100"
proof -
  from spec_request_succeeds obtain reply d' where
    ok: "createSale numeric_scale_2 ex_env cashier7 spec_request shop_db = (Inr reply, d')"
    by blast
  have row: "transaction reply = stored_transaction numeric_scale_2 ex_env
      (sale_payload ex_env cashier7 spec_request shop_db spec_items)"
    using createSale_row(1) [OF ok spec_request_values(1)] .
  have first: "discount_amount (transaction reply) = 103
     \<and> total_amount (transaction reply) = 215267 / 100"
    by (simp add: row stored_totals spec_request_values spec_example_doubles
        spec_example_stored)
  from priced_request_succeeds obtain reply2 d2 where
    ok2: "createSale numeric_scale_2 ex_env cashier7 (priced_request (7 / 10)) shop_db
          = (Inr reply2, d2)"
    by blast
  have row2: "transaction reply2 = stored_transaction numeric_scale_2 ex_env
      (sale_payload ex_env cashier7 (priced_request (7 / 10)) shop_db
         [priced_item (7 / 10)])"
    using createSale_row(1) [OF ok2 priced_request_values(1)] .
  have second: "discount_amount (transaction reply2) = 3 / 100"
    by (simp add: row2 stored_totals priced_request_values seventy_doubles seventy_stored)
  from first second show ?thesis by (simp add: ok ok2 seventy_spec)
qed

section \<open>Sale and receipt numbers\<close>

text \<open>
  C2.  Two sales in a row on 2024-01-15, for which \<open>Math.random()\<close> returns 0.5 and
  then 0.25: the first is numbered TXN-20240115-05000 and the second TXN-20240115-02500;
  their receipts are RCP-20240115-02500 and RCP-20240115-07500.  The numbers do not start
  at 00001, do not follow each other and do not grow.  When \<open>Math.random()\<close> returns
  0.5 again, the second sale draws the number of the first and its insert is refused.
\<close>

theorem sale_numbers_are_random_draws:
  "transaction_number (transaction (projr (fst
      (createSale round_half_even_2dp ex_env cashier7 (cable_request None 2) shop_db))))
     = ''TXN-20240115-05000''
   \<and> rr_receipt_number (receipt (projr (fst
      (createSale round_half_even_2dp ex_env cashier7 (cable_request None 2) shop_db))))
     = ''RCP-20240115-02500''
   \<and> transaction_number (transaction (projr (fst
      (createSale round_half_even_2dp later_env cashier7 (cable_request None 1) sold_db))))
     = ''TXN-20240115-02500''
   \<and> rr_receipt_number (receipt (projr (fst
      (createSale round_half_even_2dp later_env cashier7 (cable_request None 1) sold_db))))
     = ''RCP-20240115-07500''
   \<and> createSale round_half_even_2dp same_draw_env cashier7 (cable_request None 1) sold_db
     = (Inl (InternalStore (UniqueViolation ''transaction_number'')), sold_db)"
proof -
  from sold_db_sale obtain r1 where
    first: "createSale round_half_even_2dp ex_env cashier7 (cable_request None 2) shop_db
              = (Inr r1, sold_db)" ..
  from next_cable_sale_succeeds [OF first, where m = 1 and c' = None and u' = cashier7]
  obtain r2 d2 where
    second: "createSale round_half_even_2dp later_env cashier7 (cable_request None 1) sold_db
              = (Inr r2, d2)" by auto
  have n1: "transaction_number (transaction r1) = ''TXN-20240115-05000''"
    using cable_sale_row(5) [OF first] by (simp add: sample_numbers)
  have rc1: "rr_receipt_number (receipt r1) = ''RCP-20240115-02500''"
    using first
    by (auto simp add: createSale_def Let_def customerReceiptData_def sample_numbers
        split: option.splits if_splits sum.splits)
  have row2: "transaction r2 = stored_transaction round_half_even_2dp later_env
      (sale_payload later_env cashier7 (cable_request None 1) sold_db [cables 1])"
    using createSale_row(1) [OF second cable_request_fields(1)] .
  have n2: "transaction_number (transaction r2) = ''TXN-20240115-02500''"
    by (simp add: row2 stored_transaction_def sale_payload_def Let_def sample_numbers)
  have rc2: "rr_receipt_number (receipt r2) = ''RCP-20240115-07500''"
    using second
    by (auto simp add: createSale_def Let_def customerReceiptData_def sample_numbers
        split: option.splits if_splits sum.splits)
  have stock: "verify_stock sold_db [cables 1] = None"
    using cable_sale_stock [OF first] by (simp add: cables_def)
  have "transactionNumber (now same_draw_env) (random_txn same_draw_env) = ''TXN-20240115-05000''"
    using sample_numbers(1)
    by (simp add: same_draw_env_def later_env_def ex_env_def transactionNumber_def
        date_digits_def getFullYear_def getMonth_def getDate_def at_time_def)
  then have "\<exists>t \<in> set (transactions sold_db). transaction_number t
      = transaction_number (sale_payload same_draw_env cashier7 (cable_request None 1) sold_db [cables 1])"
    using cable_sale_row(1) [OF first] n1 by (simp add: sale_payload_def Let_def)
  from insert_transaction_duplicate [OF this]
  have dup: "createSale round_half_even_2dp same_draw_env cashier7 (cable_request None 1) sold_db
     = (Inl (InternalStore (UniqueViolation ''transaction_number'')), sold_db)"
    using stock by (simp add: createSale_def cable_request_fields)
  from n1 rc1 n2 rc2 dup show ?thesis by (simp add: first second)
qed

section \<open>Cancellation and stock\<close>

text \<open>
  C3.  A product has 10 units; cashier 7 sells 2 of them (stock 8) and then cancels the
  sale: the cancellation succeeds and the stock is still 8, not the 10 it was before the
  sale.
\<close>

theorem cancelSale_does_not_restore_stock:
  "map_option quantity_in_stock (products shop_db 12) = Some 10
   \<and> map_option quantity_in_stock (products sold_db 12) = Some 8
   \<and> \<not> isl (fst (cancelSale later_env cashier7 100 sold_db))
   \<and> map_option quantity_in_stock
        (products (snd (cancelSale later_env cashier7 100 sold_db)) 12) = Some 8"
proof -
  from cancel_sold_db obtain row where
    "cancelSale later_env cashier7 100 sold_db = (Inr row, cancelled_db)" by blast
  then have "\<not> isl (fst (cancelSale later_env cashier7 100 sold_db))" by simp
  then show ?thesis
    by (simp add: cancelSale_products sold_db_stock shop_db_fields cable_def)
qed

section \<open>Insufficient stock\<close>

text \<open>
  C4.  When some item of a createSale request asks for more than the stock-on-hand of its
  product, the request fails with status 400 and the error "Insufficient stock for product
  ...", and the store is the one before the request: no sale, line item or receipt is
  written and no stock count changes.
\<close>

theorem createSale_insufficient_stock:
  assumes "items req = Some its"
    and "item \<in> set its"
    and "products d (product_id item) = Some p"
    and "quantity_in_stock p < quantity item"
  shows "\<exists>pid. createSale q e u req d = (Inl (InsufficientStock pid), d)
           \<and> http_status (InsufficientStock pid) = 400"
proof -
  from assms(2-4) obtain pid where "verify_stock d its = Some pid"
    using verify_stock_fails by blast
  moreover from assms(2) have "length its \<noteq> 0" by auto
  ultimately show ?thesis
    using assms(1) by (simp add: createSale_def)
qed

theorem createSale_insufficient_stock_witness:
  "\<exists>pid. createSale round_half_even_2dp ex_env cashier7 (cable_request None 11) shop_db
            = (Inl (InsufficientStock pid), shop_db)
     \<and> http_status (InsufficientStock pid) = 400"
  using createSale_insufficient_stock [of "cable_request None 11" "[cables 11]" "cables 11"
      shop_db cable round_half_even_2dp ex_env cashier7]
  by (simp add: cable_request_def cables_def shop_db_fields cable_def)

section \<open>Loyalty eligibility\<close>

text \<open>
  C5.  The customer 22 has 9 purchases and has spent 500, and is not flagged.  One sale
  to that customer brings the purchase count to 10; the flag stays false and the
  percentage 0, and the next sale to the customer has no discount.
\<close>

theorem accrual_does_not_set_eligibility:
  "map_option purchase_count (customers shop_db 22) = Some 9
   \<and> map_option total_purchases (customers shop_db 22) = Some 500
   \<and> map_option purchase_count (customers accrued_db 22) = Some 10
   \<and> map_option is_eligible_for_discount (customers accrued_db 22) = Some False
   \<and> map_option discount_percentage (customers accrued_db 22) = Some 0
   \<and> \<not> isl (fst (createSale round_half_even_2dp later_env cashier7
                    (cable_request (Some 22) 1) accrued_db))
   \<and> discount_amount (transaction (projr (fst
        (createSale round_half_even_2dp later_env cashier7
           (cable_request (Some 22) 1) accrued_db)))) = 0"
proof -
  from accrued_db_sale obtain r1 where
    first: "createSale round_half_even_2dp ex_env cashier7 (cable_request (Some 22) 1) shop_db
              = (Inr r1, accrued_db)" ..
  have cust: "customers accrued_db 22 =
      Some (nine\<lparr>total_purchases :=
                   round_half_even_2dp (total_purchases nine + total_amount (transaction r1)),
                 purchase_count := purchase_count nine + 1,
                 c_updated_at := now ex_env\<rparr>)"
    using createSale_effects(2) [OF first cable_request_fields(1)]
    by (simp add: cable_request_fields shop_db_fields)
  from next_cable_sale_succeeds [OF first, where m = 1 and c' = "Some 22" and u' = cashier7]
  obtain r2 d2 where
    second: "createSale round_half_even_2dp later_env cashier7 (cable_request (Some 22) 1) accrued_db
              = (Inr r2, d2)" by auto
  have row2: "transaction r2 = stored_transaction round_half_even_2dp later_env
      (sale_payload later_env cashier7 (cable_request (Some 22) 1) accrued_db [cables 1])"
    using createSale_row(1) [OF second cable_request_fields(1)] .
  have "discount_amount (transaction r2) = 0"
    by (simp add: row2 stored_totals cable_request_fields customerData_def cust
        double_discount_def nine_def number_text_0 round_half_even_2dp_def
        round_half_even_def)
  then show ?thesis
    by (simp add: second cust shop_db_fields nine_def)
qed

section \<open>Repeated cancellation\<close>

text \<open>
  C6 (as amended).  cancelSale has no guard on the status: for a sale that exists and a
  requester who is its cashier or an admin, it answers with the sale, status cancelled,
  whether the sale was completed or already cancelled (there is no AlreadyCancelled
  failure), and it leaves the sale in the store with that status.
\<close>

theorem cancelSale_no_status_guard:
  assumes "find (\<lambda>t. t_id t = tid) (transactions d) = Some txn"
    and "cashier_id txn = user_id u \<or> user_role u = ''admin''"
  shows "\<exists>row d'. cancelSale e u tid d = (Inr row, d')
     \<and> row = txn\<lparr>status := cancelled, t_updated_at := now e\<rparr>
     \<and> find (\<lambda>t. t_id t = tid) (transactions d') = Some row"
proof -
  from assms(1) have "t_id txn = tid" by (auto dest: find_Some_iff [THEN iffD1])
  then have "mark_cancelled (now e) tid txn = txn\<lparr>status := cancelled, t_updated_at := now e\<rparr>"
    by (simp add: mark_cancelled_def)
  then show ?thesis
    using assms(1) by (simp add: cancelSale_found [OF assms] find_mark_cancelled)
qed

theorem cancelSale_no_status_guard_witness:
  "\<exists>txn row d'. find (\<lambda>t. t_id t = 100) (transactions cancelled_db) = Some txn
     \<and> status txn = cancelled
     \<and> cancelSale later_env cashier7 100 cancelled_db = (Inr row, d')
     \<and> status row = cancelled
     \<and> find (\<lambda>t. t_id t = 100) (transactions d') = Some row"
proof -
  from cancel_sold_db obtain txn where
    rows: "transactions cancelled_db = [txn]" and row: "t_id txn = 100" "cashier_id txn = 7"
      "status txn = cancelled"
    by blast
  have found: "find (\<lambda>t. t_id t = 100) (transactions cancelled_db) = Some txn"
    by (simp add: rows row)
  have own: "cashier_id txn = user_id cashier7 \<or> user_role cashier7 = ''admin''"
    by (simp add: row cashier7_def)
  from cancelSale_no_status_guard [OF found own, of later_env] obtain r d' where
    "cancelSale later_env cashier7 100 cancelled_db = (Inr r, d')"
    "r = txn\<lparr>status := cancelled, t_updated_at := now later_env\<rparr>"
    "find (\<lambda>t. t_id t = 100) (transactions d') = Some r"
    by blast
  with found row show ?thesis by auto
qed

text \<open>
  C6 as stated fails: the sale 100 of the store \<open>cancelled_db\<close> is cancelled already,
  and cancelling it again succeeds.
\<close>

theorem cancelSale_twice_counterexample:
  "map status (transactions cancelled_db) = [cancelled]
   \<and> \<not> isl (fst (cancelSale later_env cashier7 100 cancelled_db))"
proof -
  from cancel_sold_db obtain txn where
    rows: "transactions cancelled_db = [txn]" and row: "t_id txn = 100" "cashier_id txn = 7"
      "status txn = cancelled"
    by blast
  have found: "find (\<lambda>t. t_id t = 100) (transactions cancelled_db) = Some txn"
    by (simp add: rows row)
  have own: "cashier_id txn = user_id cashier7 \<or> user_role cashier7 = ''admin''"
    by (simp add: row cashier7_def)
  show ?thesis
    by (simp add: cancelSale_found [OF found own] rows row)
qed

section \<open>Regenerating the daily report\<close>

text \<open>
  C7 (as amended).  Running generate(date) again for the same date, by the same user and
  with unchanged sales, gives the answer of the first run and leaves the store of the
  first run as it is: the row of that date is overwritten, never doubled, and a run for a
  date that has a row keeps the number of rows.  The row records who generated it: a run
  by another user gives the report of the first run with that user in
  \<open>generated_by\<close>, and nothing else changed.
\<close>

theorem generateDaily_idempotent:
  "generateDaily q e2 u (Some dt) (snd (generateDaily q e1 u (Some dt) d))
     = generateDaily q e1 u (Some dt) d
   \<and> ((\<exists>r \<in> set (daily_reports d). report_date (dr_payload r) = dt) \<longrightarrow>
        length (daily_reports (snd (generateDaily q e1 u (Some dt) d))) = length (daily_reports d))
   \<and> map_sum id (\<lambda>r. r\<lparr>dr_payload := (dr_payload r)\<lparr>generated_by := g\<rparr>\<rparr>)
         (fst (generateDaily q e2 u' (Some dt) (snd (generateDaily q e1 u (Some dt) d))))
       = map_sum id (\<lambda>r. r\<lparr>dr_payload := (dr_payload r)\<lparr>generated_by := g\<rparr>\<rparr>)
           (fst (generateDaily q e1 u (Some dt) d))"
  using generateDaily_again generateDaily_rows generateDaily_other_user by blast

theorem generateDaily_idempotent_witness:
  "generateDaily round_half_even_2dp later_env admin8 (Some ex_day)
       (snd (generateDaily round_half_even_2dp ex_env admin8 (Some ex_day) noon_db))
     = generateDaily round_half_even_2dp ex_env admin8 (Some ex_day) noon_db
   \<and> length (daily_reports
        (snd (generateDaily round_half_even_2dp later_env admin8 (Some ex_day)
           (snd (generateDaily round_half_even_2dp ex_env admin8 (Some ex_day) noon_db))))) = 1
   \<and> dr_total_transactions (dr_payload (projr (fst
        (generateDaily round_half_even_2dp ex_env admin8 (Some ex_day) noon_db)))) = 1"
proof -
  let ?G1 = "generateDaily round_half_even_2dp ex_env admin8 (Some ex_day) noon_db"
  from not_isl_Inr [OF generateDaily_succeeds [OF sample_payloads(2)]]
  obtain r1 where g1: "?G1 = (Inr r1, snd ?G1)" by blast
  have d1: "snd ?G1 = upsert_daily_report ex_env (dr_payload r1) noon_db"
    using generateDaily_Inr(2) [OF g1] .
  have "report_date (dr_payload r1) = ex_day"
    using generateDaily_Inr(1) [OF g1] by (rule daily_payload_date)
  then have has: "\<exists>r \<in> set (daily_reports (snd ?G1)). report_date (dr_payload r) = ex_day"
    using upsert_has_row [of ex_env "dr_payload r1" noon_db] by (simp add: d1)
  have empty: "daily_reports noon_db = []"
    by (simp add: noon_db_def shop_db_def empty_db_def)
  have len1: "length (daily_reports (snd ?G1)) = 1"
    unfolding d1 by (simp add: upsert_daily_report_def empty)
  have count: "dr_total_transactions (dr_payload r1) = 1"
    using generateDaily_counts [OF g1]
    by (simp add: sample_rows noon_sale_counted)
  from generateDaily_idempotent [where q = round_half_even_2dp and ?e2.0 = later_env
      and u = admin8 and dt = ex_day and ?e1.0 = later_env and d = "snd ?G1"]
    has
  have "length (daily_reports
        (snd (generateDaily round_half_even_2dp later_env admin8 (Some ex_day) (snd ?G1))))
      = length (daily_reports (snd ?G1))" by blast
  moreover from generateDaily_idempotent [where q = round_half_even_2dp and ?e2.0 = later_env
      and u = admin8 and dt = ex_day and ?e1.0 = ex_env and d = noon_db]
  have "generateDaily round_half_even_2dp later_env admin8 (Some ex_day) (snd ?G1) = ?G1"
    by blast
  moreover have "dr_total_transactions (dr_payload (projr (fst ?G1))) = 1"
    using count by (subst g1) simp
  ultimately show ?thesis using len1 by simp
qed

text \<open>
  C7 as stated fails: after admin 8 generated the report of a day, the same report
  generated by admin 9, with the sales unchanged, is not the report of the first run.
\<close>

theorem generateDaily_other_user_counterexample:
  "generated_by (dr_payload (projr (fst
      (generateDaily round_half_even_2dp ex_env admin8 (Some ex_day) noon_db)))) = Some 8
   \<and> generated_by (dr_payload (projr (fst
      (generateDaily round_half_even_2dp later_env admin9 (Some ex_day)
         (snd (generateDaily round_half_even_2dp ex_env admin8 (Some ex_day) noon_db)))))) = Some 9
   \<and> fst (generateDaily round_half_even_2dp later_env admin9 (Some ex_day)
         (snd (generateDaily round_half_even_2dp ex_env admin8 (Some ex_day) noon_db)))
     \<noteq> fst (generateDaily round_half_even_2dp ex_env admin8 (Some ex_day) noon_db)"
proof -
  let ?G1 = "generateDaily round_half_even_2dp ex_env admin8 (Some ex_day) noon_db"
  let ?G2 = "generateDaily round_half_even_2dp later_env admin9 (Some ex_day) (snd ?G1)"
  from not_isl_Inr [OF generateDaily_succeeds [OF sample_payloads(2)]]
  obtain r1 where g1: "?G1 = (Inr r1, snd ?G1)" by blast
  have d1: "snd ?G1 = upsert_daily_report ex_env (dr_payload r1) noon_db"
    using generateDaily_Inr(2) [OF g1] .
  have "daily_payload round_half_even_2dp admin9 ex_day (snd ?G1) \<noteq> None"
    by (simp add: d1 daily_payload_upsert sample_payloads)
  from not_isl_Inr [OF generateDaily_succeeds [OF this]]
  obtain r2 where g2: "?G2 = (Inr r2, snd ?G2)" by blast
  have by1: "generated_by (dr_payload r1) = Some 8"
    using daily_payload_fields(2) [OF generateDaily_Inr(1) [OF g1]] by (simp add: admin8_def)
  have by2: "generated_by (dr_payload r2) = Some 9"
    using daily_payload_fields(2) [OF generateDaily_Inr(1) [OF g2]] by (simp add: admin9_def)
  have f1: "fst ?G1 = Inr r1" by (subst g1) simp
  have f2: "fst ?G2 = Inr r2" by (subst g2) simp
  from by1 by2 have "r1 \<noteq> r2" by auto
  with by1 by2 show ?thesis by (simp add: f1 f2)
qed

section \<open>Validation of a sale request\<close>

text \<open>
  C8 (as amended).  createSale checks that the item list is there and not empty (else it
  fails with status 400, "Transaction must have items") and, through the stock check, that
  every referenced product exists (else status 400, "Insufficient stock for product ...");
  whenever createSale fails, the store is the one before the request.  It checks neither
  that quantities are positive nor that products are active.
\<close>

theorem createSale_validation:
  "(items req = None \<or> items req = Some [] \<longrightarrow>
      createSale q e u req d = (Inl TransactionMustHaveItems, d)
      \<and> http_status TransactionMustHaveItems = 400)
   \<and> (\<forall>its item. items req = Some its \<and> item \<in> set its \<and> products d (product_id item) = None \<longrightarrow>
        (\<exists>pid. createSale q e u req d = (Inl (InsufficientStock pid), d)))
   \<and> (\<forall>err d'. createSale q e u req d = (Inl err, d') \<longrightarrow> d' = d)"
proof (intro conjI allI impI)
  assume "items req = None \<or> items req = Some []"
  then show "createSale q e u req d = (Inl TransactionMustHaveItems, d)"
    by (auto simp add: createSale_def)
next
  show "http_status TransactionMustHaveItems = 400" by simp
next
  fix its item
  assume a: "items req = Some its \<and> item \<in> set its \<and> products d (product_id item) = None"
  then obtain pid where "verify_stock d its = Some pid"
    using verify_stock_unknown by blast
  moreover from a have "length its \<noteq> 0" by auto
  ultimately show "\<exists>pid. createSale q e u req d = (Inl (InsufficientStock pid), d)"
    using a by (simp add: createSale_def)
next
  fix err d'
  assume "createSale q e u req d = (Inl err, d')"
  then show "d' = d" by (rule createSale_Inl)
qed

theorem createSale_validation_witness:
  "createSale round_half_even_2dp ex_env cashier7 no_items_request shop_db
     = (Inl TransactionMustHaveItems, shop_db)
   \<and> (\<exists>pid. createSale round_half_even_2dp ex_env cashier7 unknown_request shop_db
              = (Inl (InsufficientStock pid), shop_db))"
proof -
  have "items no_items_request = None \<or> items no_items_request = Some []"
    by (simp add: no_items_request_def)
  with createSale_validation [of no_items_request round_half_even_2dp ex_env cashier7 shop_db]
  have 1: "createSale round_half_even_2dp ex_env cashier7 no_items_request shop_db
     = (Inl TransactionMustHaveItems, shop_db)" by blast
  have "items unknown_request = Some [unknown_item] \<and> unknown_item \<in> set [unknown_item]
      \<and> products shop_db (product_id unknown_item) = None"
    by (simp add: unknown_request_def unknown_item_def shop_db_fields)
  with createSale_validation [of unknown_request round_half_even_2dp ex_env cashier7 shop_db]
  have 2: "\<exists>pid. createSale round_half_even_2dp ex_env cashier7 unknown_request shop_db
              = (Inl (InsufficientStock pid), shop_db)" by blast
  from 1 2 show ?thesis by simp
qed

text \<open>
  C8 as stated fails: a request for quantity 0 of a product is not rejected; the sale is
  stored.
\<close>

theorem createSale_zero_quantity_counterexample:
  "\<not> isl (fst (createSale round_half_even_2dp ex_env cashier7 (cable_request None 0) shop_db))
   \<and> length (transactions
        (snd (createSale round_half_even_2dp ex_env cashier7 (cable_request None 0) shop_db))) = 1"
proof -
  from cable_sale_succeeds [where n = 0 and c = None and q = round_half_even_2dp and e = ex_env
      and u = cashier7]
  obtain reply d' where
    ok: "createSale round_half_even_2dp ex_env cashier7 (cable_request None 0) shop_db = (Inr reply, d')"
    by auto
  from cable_sale_row(1) [OF ok] ok show ?thesis by simp
qed

section \<open>The window of the daily report\<close>

text \<open>
  C9.  A completed sale stamped 23:59:59 on 2024-01-15 is on that calendar day, yet the
  filter of the report of that day leaves it out: the report counts no transaction and no
  sales.
\<close>

theorem report_misses_final_second:
  "status late_sale = completed
   \<and> ts_date (t_created_at late_sale) = ex_day
   \<and> transactions late_db = [late_sale]
   \<and> \<not> report_filter ex_day late_sale
   \<and> \<not> isl (fst (generateDaily round_half_even_2dp ex_env admin8 (Some ex_day) late_db))
   \<and> dr_total_transactions (dr_payload (projr (fst
        (generateDaily round_half_even_2dp ex_env admin8 (Some ex_day) late_db)))) = 0
   \<and> dr_total_sales (dr_payload (projr (fst
        (generateDaily round_half_even_2dp ex_env admin8 (Some ex_day) late_db)))) = 0"
proof -
  let ?G = "generateDaily round_half_even_2dp ex_env admin8 (Some ex_day) late_db"
  have ok: "\<not> isl (fst ?G)"
    by (rule generateDaily_succeeds [OF sample_payloads(1)])
  from not_isl_Inr [OF this] obtain r where g: "?G = (Inr r, snd ?G)" by blast
  have f: "fst ?G = Inr r" by (subst g) simp
  have rows: "transactions late_db = [late_sale]" by (simp add: late_db_def)
  have "dr_total_transactions (dr_payload r) = 0"
    using generateDaily_counts [OF g] by (simp add: rows late_sale_filtered)
  moreover have "dr_total_sales (dr_payload r) = 0"
    using daily_payload_total_sales [OF generateDaily_Inr(1) [OF g]]
    by (simp add: rows late_sale_filtered sum_total_amount_def number_text_0
        round_half_even_2dp_def round_half_even_def)
  ultimately show ?thesis
    using ok by (simp add: f rows late_sale_filtered) (simp add: late_sale_def at_time_def)
qed

section \<open>Registration and roles\<close>






end
